theory Spec2Isabelle
  imports Complex_Main
begin

section \<open>X.renderer: data model\<close>

text \<open>
  A shallow embedding of \<^verbatim>\<open>xtk/visualization/renderer.js\<close>. The renderer object, the
  caller's scene objects and containers, and the calls made on the host (DOM and WebGL
  context) are one explicit state that every method takes and returns. A method returns
  a pair: the exception it threw or the value it returned, and the state it left behind
  (a throw does not undo what was done before it).

  JavaScript numbers are modelled as real numbers.
\<close>

type_synonym num = real
type_synonym addr = nat
type_synonym glctx = nat
type_synonym glbuffer = nat
type_synonym glshader = nat
type_synonym glprogram = nat
type_synonym matrix = "num list list"

text \<open>
  A DOM element: the document's body, an element found by its id, or the n-th element
  that \<^verbatim>\<open>goog.dom.createDom\<close> has made.
\<close>

datatype elem = DocumentBody | ElementById string | Created nat

datatype exn =
    X_exception string
  | StopIteration
  | TypeError
  | Error string

type_synonym 'a result = "exn + 'a"

text \<open>What a host call does: it throws, or it returns a value.\<close>

datatype 'a outcome = Throws string | Returns 'a

text \<open>
  Modelled from the spec: \<^verbatim>\<open>X.color\<close>, \<^verbatim>\<open>X.colors\<close>, \<^verbatim>\<open>X.points\<close>, \<^verbatim>\<open>X.object\<close>,
  \<^verbatim>\<open>X.buffer\<close> and \<^verbatim>\<open>X.camera\<close> are required by the renderer and are not part of
  its file. A point is a 3-vector, a color has four components (r, g, b, alpha), and
  \<^verbatim>\<open>new X.color(1, 1, 1)\<close> is opaque white. A container is an ordered sequence with
  \<^verbatim>\<open>count()\<close>, \<^verbatim>\<open>add()\<close> and \<^verbatim>\<open>flatten()\<close>. A scene object has an optional
  object-level color and refers to its point container and its color container.
  A buffer wraps a GL buffer with its item count and item size. A camera supplies a
  view and a perspective matrix.
\<close>

datatype vec3 = Vec3 (vx: num) (vy: num) (vz: num)

datatype color = Color (red: num) (green: num) (blue: num) (alpha: num)

definition X_color :: "num \<Rightarrow> num \<Rightarrow> num \<Rightarrow> color" where
  "X_color r g b = Color r g b 1"

record xobject =
  object_color :: "color option"
  object_points :: addr
  object_colors :: addr

record buffer =
  glBuffer :: glbuffer
  itemCount :: nat
  itemSize :: nat

definition X_buffer :: "glbuffer \<Rightarrow> nat \<Rightarrow> nat \<Rightarrow> buffer" where
  "X_buffer b n k = \<lparr>glBuffer = b, itemCount = n, itemSize = k\<rparr>"

record camera =
  getView :: matrix
  getPerspective :: matrix

fun points_flatten :: "vec3 list \<Rightarrow> num list" where
  "points_flatten [] = []"
| "points_flatten (p # ps) = vx p # vy p # vz p # points_flatten ps"

fun colors_flatten :: "color list \<Rightarrow> num list" where
  "colors_flatten [] = []"
| "colors_flatten (c # cs) = red c # green c # blue c # alpha c # colors_flatten cs"

text \<open>A JavaScript argument: null, or a reference to an object on the heap.\<close>

datatype jsvalue = JNull | JRef addr

text \<open>The typed array handed to the context; the narrowing to 32 bits is not unfolded.\<close>

datatype float32array = Float32Array "num list"

datatype cssvalue = Str string | NumToString num

datatype shaderkind = FRAGMENT_SHADER | VERTEX_SHADER

datatype uniformlocation = UniformLocation "glprogram option" string

datatype attriblocation = AttribLocation glprogram string

text \<open>The calls the renderer makes on the WebGL context.\<close>

datatype glcmd =
    Viewport num num num num
  | ClearColor num num num num
  | Enable_DEPTH_TEST
  | DepthFunc_LEQUAL
  | Clear_COLOR_DEPTH
  | CreateShader shaderkind
  | ShaderSource glshader string
  | CompileShader glshader
  | GetShaderParameter_COMPILE_STATUS glshader
  | CreateProgram
  | AttachShader glprogram glshader
  | LinkProgram glprogram
  | GetProgramParameter_LINK_STATUS glprogram
  | UseProgram glprogram
  | GetAttribLocation glprogram string
  | EnableVertexAttribArray attriblocation
  | CreateBuffer
  | BindBuffer_ARRAY_BUFFER glbuffer
  | BufferData_ARRAY_BUFFER_STATIC_DRAW float32array
  | GetUniformLocation "glprogram option" string
  | UniformMatrix4fv uniformlocation float32array
  | VertexAttribPointer_FLOAT "attriblocation option" nat
  | DrawArrays_TRIANGLE_STRIP nat nat

text \<open>Everything the renderer does to the outside, in the order it does it.\<close>

datatype event =
    CreateDom_canvas elem
  | StyleSetProperty elem string cssvalue
  | SetCanvasWidth elem num
  | SetCanvasHeight elem num
  | AppendChild elem elem
  | GetContext_experimental_webgl elem
  | New_camera
  | GL glcmd

text \<open>
  What the host answers. The renderer's own \<^verbatim>\<open>try\<close> blocks in \<^verbatim>\<open>init\<close> handle a context
  that throws, so there the host says which commands throw; everywhere else the context
  is an opaque service that accepts every command.
\<close>

record host =
  document_body :: "elem option"
  getElement :: "string \<Rightarrow> elem option"
  getContext :: "glctx option outcome"
  gl_throws :: "glcmd \<Rightarrow> string option"
  new_camera :: "camera outcome"
  compile_status :: "glshader \<Rightarrow> bool"
  link_status :: "glprogram \<Rightarrow> bool"

text \<open>
  The fields of the renderer (\<^verbatim>\<open>this._canvas\<close> is \<open>this_canvas\<close>, and so on), the heap
  of the caller's scene objects and of the point and color containers (an address is an
  index, so a new container is never an old one), the counters from which the host
  names new elements and GL objects, and the trace of calls made so far. The counter
  \<open>this_id\<close> and the keys of the registry are integers: it only ever counts up by one
  from -1.
\<close>

record state =
  this_dimension :: int
  this_width :: num
  this_height :: num
  this_backgroundColor :: string
  this_container :: "elem option"
  this_canvas :: "elem option"
  this_gl :: "glctx option"
  this_camera :: "camera option"
  this_objects :: "(int \<times> addr) list"
  this_vertexBuffers :: "(int \<times> buffer) list"
  this_colorBuffers :: "(int \<times> buffer) list"
  this_id :: int
  this_shaderProgram :: "glprogram option"
  this_vertexPositionAttribute :: "attriblocation option"
  this_vertexColorAttribute :: "attriblocation option"
  heap_objects :: "xobject list"
  heap_points :: "vec3 list list"
  heap_colors :: "color list list"
  dom_elements :: nat
  gl_objects :: nat
  trace :: "event list"

definition heap_get :: "'a list \<Rightarrow> addr \<Rightarrow> 'a option" where
  "heap_get h a = (if a < length h then Some (h ! a) else None)"

definition emit :: "event \<Rightarrow> state \<Rightarrow> state" where
  "emit e s = s\<lparr>trace := trace s @ [e]\<rparr>"

definition gl :: "glcmd \<Rightarrow> state \<Rightarrow> state" where
  "gl c s = emit (GL c) s"

subsection \<open>goog.structs.Map\<close>

text \<open>
  The registry maps keep their keys in insertion order: \<^verbatim>\<open>set\<close> replaces the value of
  a key that is present and appends a key that is new; \<^verbatim>\<open>get\<close> of an absent key is
  undefined.
\<close>

fun Map_set :: "int \<Rightarrow> 'v \<Rightarrow> (int \<times> 'v) list \<Rightarrow> (int \<times> 'v) list" where
  "Map_set k v [] = [(k, v)]"
| "Map_set k v (p # ps) = (if fst p = k then (k, v) # ps else p # Map_set k v ps)"

definition Map_get :: "(int \<times> 'v) list \<Rightarrow> int \<Rightarrow> 'v option" where
  "Map_get m k = map_of m k"

definition Map_containsKey :: "(int \<times> 'v) list \<Rightarrow> int \<Rightarrow> bool" where
  "Map_containsKey m k = (map_of m k \<noteq> None)"

definition Map_getKeys :: "(int \<times> 'v) list \<Rightarrow> int list" where
  "Map_getKeys m = map fst m"

section \<open>Construction and property accessors\<close>

definition X_renderer :: "num \<Rightarrow> num \<Rightarrow> state" where
  "X_renderer width height =
     \<lparr>this_dimension = -1, this_width = width, this_height = height,
      this_backgroundColor = ''#000000'', this_container = None, this_canvas = None,
      this_gl = None, this_camera = None, this_objects = [], this_vertexBuffers = [],
      this_colorBuffers = [], this_id = -1, this_shaderProgram = None,
      this_vertexPositionAttribute = None, this_vertexColorAttribute = None,
      heap_objects = [], heap_points = [], heap_colors = [],
      dom_elements = 0, gl_objects = 0, trace = []\<rparr>"

definition getWidth :: "state \<Rightarrow> num" where
  "getWidth s = this_width s"

definition getHeight :: "state \<Rightarrow> num" where
  "getHeight s = this_height s"

definition getBackgroundColor :: "state \<Rightarrow> string" where
  "getBackgroundColor s = this_backgroundColor s"

definition setWidth :: "num \<Rightarrow> state \<Rightarrow> state" where
  "setWidth width s =
     (let s1 = (case this_canvas s of
                  None \<Rightarrow> s
                | Some c \<Rightarrow> emit (StyleSetProperty c ''width'' (NumToString width)) s)
      in s1\<lparr>this_width := width\<rparr>)"

definition setHeight :: "num \<Rightarrow> state \<Rightarrow> state" where
  "setHeight height s =
     (let s1 = (case this_canvas s of
                  None \<Rightarrow> s
                | Some c \<Rightarrow> emit (StyleSetProperty c ''height'' (NumToString height)) s)
      in s1\<lparr>this_height := height\<rparr>)"

definition setBackgroundColor :: "string \<Rightarrow> state \<Rightarrow> state" where
  "setBackgroundColor backgroundColor s =
     (let s1 = (case this_canvas s of
                  None \<Rightarrow> s
                | Some c \<Rightarrow> emit (StyleSetProperty c ''background-color'' (Str backgroundColor)) s)
      in s1\<lparr>this_backgroundColor := backgroundColor\<rparr>)"

definition getContainer :: "host \<Rightarrow> state \<Rightarrow> elem result \<times> state" where
  "getContainer h s =
     (case this_container s of
        Some c \<Rightarrow> (Inr c, s)
      | None \<Rightarrow>
          (case document_body h of
             None \<Rightarrow> (Inl (X_exception ''Fatal: Could not find <body></body>!''), s)
           | Some body \<Rightarrow> (Inr body, s\<lparr>this_container := Some body\<rparr>)))"

definition setContainer :: "elem option \<Rightarrow> state \<Rightarrow> unit result \<times> state" where
  "setContainer container s =
     (case container of
        None \<Rightarrow> (Inl (X_exception ''Fatal: Could not find container!''), s)
      | Some c \<Rightarrow> (Inr (), s\<lparr>this_container := Some c\<rparr>))"

definition setContainerById :: "host \<Rightarrow> string \<Rightarrow> state \<Rightarrow> unit result \<times> state" where
  "setContainerById h containerId s = setContainer (getElement h containerId) s"

section \<open>init\<close>

text \<open>
  Step 3 of \<^verbatim>\<open>init\<close> issues its commands in order inside one \<^verbatim>\<open>try\<close>; the first one
  that throws ends the block, and the commands before it have been issued.
\<close>

fun gl_try :: "host \<Rightarrow> glcmd list \<Rightarrow> state \<Rightarrow> string option \<times> state" where
  "gl_try h [] s = (None, s)"
| "gl_try h (c # cs) s =
     (case gl_throws h c of
        Some e \<Rightarrow> (Some e, s)
      | None \<Rightarrow> gl_try h cs (gl c s))"

definition init_configure :: "state \<Rightarrow> glcmd list" where
  "init_configure s =
     [Viewport 0 0 (getWidth s) (getHeight s), ClearColor 0 0 0 0,
      Enable_DEPTH_TEST, DepthFunc_LEQUAL, Clear_COLOR_DEPTH]"

definition init :: "host \<Rightarrow> state \<Rightarrow> unit result \<times> state" where
  "init h s =
     (case this_canvas s of
        Some c \<Rightarrow> (Inr (), s)
      | None \<Rightarrow>
          (let canvas = Created (dom_elements s);
               s1 = emit (CreateDom_canvas canvas) (s\<lparr>dom_elements := Suc (dom_elements s)\<rparr>);
               s2 = emit (StyleSetProperty canvas ''background-color''
                            (Str (getBackgroundColor s1))) s1;
               s3 = emit (SetCanvasWidth canvas (getWidth s2)) s2;
               s4 = emit (SetCanvasHeight canvas (getHeight s3)) s3
           in case getContainer h s4 of
                (Inl e, s5) \<Rightarrow> (Inl e, s5)
              | (Inr container, s5) \<Rightarrow>
                  (let s6 = emit (AppendChild container canvas) s5;
                       s7 = emit (GetContext_experimental_webgl canvas) s6
                   in case getContext h of
                        Throws e \<Rightarrow>
                          (Inl (X_exception
                             (''Fatal: Exception while getting GL Context!'' @ CHR 0x0A # e)), s7)
                      | Returns None \<Rightarrow>
                          (Inl (X_exception ''Fatal: WebGL not supported!''), s7)
                      | Returns (Some g) \<Rightarrow>
                          (case gl_try h (init_configure s7) s7 of
                             (Some e, s8) \<Rightarrow>
                               (Inl (X_exception
                                  (''Fatal: Exception while accessing GL Context!'' @ CHR 0x0A # e)), s8)
                           | (None, s8) \<Rightarrow>
                               (let s9 = emit New_camera s8
                                in case new_camera h of
                                     Throws e \<Rightarrow> (Inl (Error e), s9)
                                   | Returns cam \<Rightarrow>
                                       (Inr (), s9\<lparr>this_canvas := Some canvas,
                                                  this_gl := Some g,
                                                  this_camera := Some cam\<rparr>))))))"

text \<open>
  What a complete \<^verbatim>\<open>init\<close> does to the outside, in order: the canvas is made, styled,
  sized and appended to the container, the context is asked for, the five commands of
  step 3 are issued, and the camera is made.
\<close>

definition init_events :: "elem \<Rightarrow> state \<Rightarrow> event list" where
  "init_events container s =
     [CreateDom_canvas (Created (dom_elements s)),
      StyleSetProperty (Created (dom_elements s)) ''background-color''
        (Str (this_backgroundColor s)),
      SetCanvasWidth (Created (dom_elements s)) (this_width s),
      SetCanvasHeight (Created (dom_elements s)) (this_height s),
      AppendChild container (Created (dom_elements s)),
      GetContext_experimental_webgl (Created (dom_elements s))]
     @ map GL (init_configure s) @ [New_camera]"

section \<open>addShaders\<close>

text \<open>A call that makes a GL object returns its name, the next unused one.\<close>

definition gl_create :: "glcmd \<Rightarrow> state \<Rightarrow> nat \<times> state" where
  "gl_create c s = (gl_objects s, gl c (s\<lparr>gl_objects := Suc (gl_objects s)\<rparr>))"

text \<open>A shader argument is absent, or an object whose \<^verbatim>\<open>getSource()\<close> is the given text.\<close>

definition link_shaders :: "host \<Rightarrow> glshader \<Rightarrow> glshader \<Rightarrow> state \<Rightarrow> unit result \<times> state" where
  "link_shaders h glFragmentShader glVertexShader s =
     (let (shaderProgram, s1) = gl_create CreateProgram s;
          s2 = gl (AttachShader shaderProgram glVertexShader) s1;
          s3 = gl (AttachShader shaderProgram glFragmentShader) s2;
          s4 = gl (LinkProgram shaderProgram) s3;
          s5 = gl (GetProgramParameter_LINK_STATUS shaderProgram) s4
      in if \<not> link_status h shaderProgram
         then (Inl (X_exception ''Fatal: Could not create shader program!''), s5)
         else
           (let s6 = gl (UseProgram shaderProgram) s5;
                s7 = (gl (GetAttribLocation shaderProgram ''vertexPosition'') s6)
                       \<lparr>this_vertexPositionAttribute :=
                          Some (AttribLocation shaderProgram ''vertexPosition'')\<rparr>;
                s8 = gl (EnableVertexAttribArray
                           (AttribLocation shaderProgram ''vertexPosition'')) s7;
                s9 = (gl (GetAttribLocation shaderProgram ''vertexColor'') s8)
                       \<lparr>this_vertexColorAttribute :=
                          Some (AttribLocation shaderProgram ''vertexColor'')\<rparr>;
                s10 = gl (EnableVertexAttribArray
                            (AttribLocation shaderProgram ''vertexColor'')) s9
            in (Inr (), s10\<lparr>this_shaderProgram := Some shaderProgram\<rparr>)))"

definition addShaders ::
  "host \<Rightarrow> string option \<Rightarrow> string option \<Rightarrow> state \<Rightarrow> unit result \<times> state" where
  "addShaders h fragmentShader vertexShader s =
     (if this_canvas s = None \<or> this_gl s = None
      then (Inl (X_exception ''Fatal: Renderer was not initialized properly!''), s)
      else case (fragmentShader, vertexShader) of
        (Some fragmentSource, Some vertexSource) \<Rightarrow>
          (let (glFragmentShader, s1) = gl_create (CreateShader FRAGMENT_SHADER) s;
               (glVertexShader, s2) = gl_create (CreateShader VERTEX_SHADER) s1;
               s3 = gl (ShaderSource glFragmentShader fragmentSource) s2;
               s4 = gl (ShaderSource glVertexShader vertexSource) s3;
               s5 = gl (CompileShader glFragmentShader) s4;
               s6 = gl (CompileShader glVertexShader) s5;
               s7 = gl (GetShaderParameter_COMPILE_STATUS glFragmentShader) s6
           in if \<not> compile_status h glFragmentShader
              then (Inl (X_exception ''Fatal: Shader compilation failed!''), s7)
              else
                (let s8 = gl (GetShaderParameter_COMPILE_STATUS glVertexShader) s7
                 in if \<not> compile_status h glVertexShader
                    then (Inl (X_exception ''Fatal: Shader compilation failed!''), s8)
                    else link_shaders h glFragmentShader glVertexShader s8))
      | _ \<Rightarrow> (Inl (X_exception ''Fatal: Could not add shaders!''), s))"

section \<open>addObject\<close>

definition points_count :: "state \<Rightarrow> addr \<Rightarrow> nat result" where
  "points_count s a =
     (case heap_get (heap_points s) a of None \<Rightarrow> Inl TypeError | Some ps \<Rightarrow> Inr (length ps))"

definition colors_count :: "state \<Rightarrow> addr \<Rightarrow> nat result" where
  "colors_count s a =
     (case heap_get (heap_colors s) a of None \<Rightarrow> Inl TypeError | Some cs \<Rightarrow> Inr (length cs))"

text \<open>\<^verbatim>\<open>new X.colors()\<close>: an empty container at an address not used before.\<close>

definition X_colors_new :: "state \<Rightarrow> addr \<times> state" where
  "X_colors_new s = (length (heap_colors s), s\<lparr>heap_colors := heap_colors s @ [[]]\<rparr>)"

definition X_colors_add :: "addr \<Rightarrow> color \<Rightarrow> state \<Rightarrow> unit result \<times> state" where
  "X_colors_add a c s =
     (case heap_get (heap_colors s) a of
        None \<Rightarrow> (Inl TypeError, s)
      | Some cs \<Rightarrow> (Inr (), s\<lparr>heap_colors := (heap_colors s)[a := cs @ [c]]\<rparr>))"

text \<open>
  \<^verbatim>\<open>for (i = 0; i < object.points().count(); i++) colors.add(objectColor);\<close> entered
  with the given \<open>i\<close>; the count is read again at every test.
\<close>

function add_loop :: "nat \<Rightarrow> addr \<Rightarrow> addr \<Rightarrow> color \<Rightarrow> state \<Rightarrow> unit result \<times> state" where
  "add_loop i points colors objectColor s =
     (case points_count s points of
        Inl e \<Rightarrow> (Inl e, s)
      | Inr n \<Rightarrow>
          if i < n
          then (case X_colors_add colors objectColor s of
                  (Inl e, s1) \<Rightarrow> (Inl e, s1)
                | (Inr u, s1) \<Rightarrow> add_loop (Suc i) points colors objectColor s1)
          else (Inr (), s))"
  by pat_completeness auto
termination
  by (relation "measure (\<lambda>(i, points, colors, objectColor, s).
          (case points_count s points of Inl e \<Rightarrow> 0 | Inr n \<Rightarrow> n - i))")
     (auto simp: X_colors_add_def points_count_def split: option.splits)

text \<open>
  The color block of \<^verbatim>\<open>addObject\<close>: \<open>colorsValid\<close>, \<open>objectColor\<close> and \<open>colors\<close> after
  the first \<^verbatim>\<open>if\<close>, then the synthesis when the colors are not valid. The result is the
  address of the container whose colors are uploaded.
\<close>

definition check_colors :: "xobject \<Rightarrow> state \<Rightarrow> (bool \<times> color \<times> addr option) result" where
  "check_colors ob s =
     (case object_color ob of
        None \<Rightarrow>
          (case points_count s (object_points ob) of
             Inl e \<Rightarrow> Inl e
           | Inr np \<Rightarrow>
               (case colors_count s (object_colors ob) of
                  Inl e \<Rightarrow> Inl e
                | Inr nc \<Rightarrow> Inr (np = nc, X_color 1 1 1, Some (object_colors ob))))
      | Some c \<Rightarrow> Inr (False, c, None))"

definition resolve_colors :: "xobject \<Rightarrow> state \<Rightarrow> addr result \<times> state" where
  "resolve_colors ob s =
     (case check_colors ob s of
        Inl e \<Rightarrow> (Inl e, s)
      | Inr (colorsValid, objectColor, colors) \<Rightarrow>
          if \<not> colorsValid
          then (let (fresh, s1) = X_colors_new s
                in case add_loop 0 (object_points ob) fresh objectColor s1 of
                     (Inl e, s2) \<Rightarrow> (Inl e, s2)
                   | (Inr u, s2) \<Rightarrow> (Inr fresh, s2))
          else (case colors of None \<Rightarrow> (Inl TypeError, s) | Some a \<Rightarrow> (Inr a, s)))"

text \<open>Create, bind and fill the vertex buffer, and wrap it.\<close>

definition upload_points :: "xobject \<Rightarrow> state \<Rightarrow> buffer result \<times> state" where
  "upload_points ob s =
     (let (glVertexBuffer, s1) = gl_create CreateBuffer s;
          s2 = gl (BindBuffer_ARRAY_BUFFER glVertexBuffer) s1
      in case heap_get (heap_points s2) (object_points ob) of
           None \<Rightarrow> (Inl TypeError, s2)
         | Some ps \<Rightarrow>
             (let s3 = gl (BufferData_ARRAY_BUFFER_STATIC_DRAW
                             (Float32Array (points_flatten ps))) s2
              in (Inr (X_buffer glVertexBuffer (length ps) 3), s3)))"

text \<open>Create, bind and fill the color buffer from the resolved container, and wrap it.\<close>

definition upload_colors :: "addr \<Rightarrow> state \<Rightarrow> buffer result \<times> state" where
  "upload_colors colors s =
     (let (glColorBuffer, s1) = gl_create CreateBuffer s;
          s2 = gl (BindBuffer_ARRAY_BUFFER glColorBuffer) s1
      in case heap_get (heap_colors s2) colors of
           None \<Rightarrow> (Inl TypeError, s2)
         | Some cs \<Rightarrow>
             (let s3 = gl (BufferData_ARRAY_BUFFER_STATIC_DRAW
                             (Float32Array (colors_flatten cs))) s2
              in (Inr (X_buffer glColorBuffer (length cs) 4), s3)))"

text \<open>\<^verbatim>\<open>++this._id\<close>, the collision check, and the three \<^verbatim>\<open>set\<close> calls.\<close>

definition register :: "addr \<Rightarrow> buffer \<Rightarrow> buffer \<Rightarrow> state \<Rightarrow> int result \<times> state" where
  "register object vertexBuffer colorBuffer s =
     (let s1 = s\<lparr>this_id := this_id s + 1\<rparr>
      in if Map_containsKey (this_objects s1) (this_id s1)
         then (Inl (X_exception ''Fatal: Could not get unique id.''), s1)
         else
           (let uniqueId = this_id s1
            in (Inr uniqueId,
                s1\<lparr>this_objects := Map_set uniqueId object (this_objects s1),
                   this_vertexBuffers := Map_set uniqueId vertexBuffer (this_vertexBuffers s1),
                   this_colorBuffers := Map_set uniqueId colorBuffer (this_colorBuffers s1)\<rparr>)))"

definition addObject :: "jsvalue \<Rightarrow> state \<Rightarrow> int result \<times> state" where
  "addObject object s =
     (if this_canvas s = None \<or> this_gl s = None \<or> this_camera s = None
      then (Inl (X_exception ''Fatal: Renderer was not initialized properly!''), s)
      else case object of
        JNull \<Rightarrow> (Inl (X_exception ''Fatal: Illegal object!''), s)
      | JRef a \<Rightarrow>
          (case heap_get (heap_objects s) a of
             None \<Rightarrow> (Inl (X_exception ''Fatal: Illegal object!''), s)
           | Some ob \<Rightarrow>
               (case resolve_colors ob s of
                  (Inl e, s1) \<Rightarrow> (Inl e, s1)
                | (Inr colors, s1) \<Rightarrow>
                    (case upload_points ob s1 of
                       (Inl e, s2) \<Rightarrow> (Inl e, s2)
                     | (Inr vertexBuffer, s2) \<Rightarrow>
                         (case upload_colors colors s2 of
                            (Inl e, s3) \<Rightarrow> (Inl e, s3)
                          | (Inr colorBuffer, s3) \<Rightarrow>
                              register a vertexBuffer colorBuffer s3)))))"

section \<open>render\<close>

text \<open>
  Modelled from the spec: \<^verbatim>\<open>flatten\<close> on a matrix comes from \<^verbatim>\<open>X.matrixHelper\<close>, which
  is not part of the renderer's file; the matrices are uploaded column by column.
\<close>

definition matrix_flatten :: "matrix \<Rightarrow> num list" where
  "matrix_flatten m = concat (transpose m)"

text \<open>
  The \<^verbatim>\<open>while (true)\<close> of \<^verbatim>\<open>render\<close>, over the keys the iterator still has to give.
  The loop has no exit of its own: it ends with the exception that leaves it, and
  \<^verbatim>\<open>keyIterator.next()\<close> throws \<^verbatim>\<open>goog.iter.StopIteration\<close> when no key is left.
  A method call on an undefined buffer is a \<^verbatim>\<open>TypeError\<close>.
\<close>

fun render_loop :: "int list \<Rightarrow> state \<Rightarrow> exn \<times> state" where
  "render_loop [] s = (StopIteration, s)"
| "render_loop (key # keyIterator) s =
     (case Map_get (this_objects s) key of
        None \<Rightarrow> render_loop keyIterator s
      | Some object \<Rightarrow>
          (case Map_get (this_vertexBuffers s) key of
             None \<Rightarrow> (TypeError, s)
           | Some vertexBuffer \<Rightarrow>
               (let s1 = gl (BindBuffer_ARRAY_BUFFER (glBuffer vertexBuffer)) s;
                    s2 = gl (VertexAttribPointer_FLOAT (this_vertexPositionAttribute s1)
                               (itemSize vertexBuffer)) s1
                in case Map_get (this_colorBuffers s2) key of
                     None \<Rightarrow> (TypeError, s2)
                   | Some colorBuffer \<Rightarrow>
                       (let s3 = gl (BindBuffer_ARRAY_BUFFER (glBuffer colorBuffer)) s2;
                            s4 = gl (VertexAttribPointer_FLOAT (this_vertexColorAttribute s3)
                                       (itemSize colorBuffer)) s3;
                            s5 = gl (DrawArrays_TRIANGLE_STRIP 0 (itemCount vertexBuffer)) s4
                        in render_loop keyIterator s5))))"

definition render :: "state \<Rightarrow> unit result \<times> state" where
  "render s =
     (case (this_canvas s, this_gl s, this_camera s) of
        (Some canvas, Some g, Some cam) \<Rightarrow>
          (let s1 = gl Clear_COLOR_DEPTH s;
               perspectiveMatrix = getPerspective cam;
               viewMatrix = getView cam;
               s2 = gl (GetUniformLocation (this_shaderProgram s1) ''perspective'') s1;
               perspectiveUniformLocation = UniformLocation (this_shaderProgram s1) ''perspective'';
               s3 = gl (UniformMatrix4fv perspectiveUniformLocation
                          (Float32Array (matrix_flatten perspectiveMatrix))) s2;
               s4 = gl (GetUniformLocation (this_shaderProgram s3) ''view'') s3;
               viewUniform = UniformLocation (this_shaderProgram s3) ''view'';
               s5 = gl (UniformMatrix4fv viewUniform
                          (Float32Array (matrix_flatten viewMatrix))) s4;
               keyIterator = Map_getKeys (this_objects s5)
           in case render_loop keyIterator s5 of
                (StopIteration, s6) \<Rightarrow> (Inr (), s6)
              | (e, s6) \<Rightarrow> (Inl e, s6))
      | _ \<Rightarrow> (Inl (X_exception ''Fatal: The renderer was not initialized properly!''), s))"

section \<open>convertWorldToDisplayCoordinates\<close>

text \<open>
  \<^verbatim>\<open>goog.math.Matrix\<close> is the Closure Library's matrix, a list of rows.
  \<^verbatim>\<open>createIdentityMatrix\<close> makes the identity; \<^verbatim>\<open>multiply\<close> throws when the widths and
  heights do not fit, and otherwise returns the product as a new matrix, leaving the
  matrix it is called on as it was; \<^verbatim>\<open>getValueAt\<close> is null out of bounds.
\<close>

definition matrix_height :: "matrix \<Rightarrow> nat" where
  "matrix_height m = length m"

definition matrix_width :: "matrix \<Rightarrow> nat" where
  "matrix_width m = (case m of [] \<Rightarrow> 0 | row # rows \<Rightarrow> length row)"

definition createIdentityMatrix :: "nat \<Rightarrow> matrix" where
  "createIdentityMatrix n = map (\<lambda>i. map (\<lambda>j. if i = j then 1 else 0) [0..<n]) [0..<n]"

definition multiply :: "matrix \<Rightarrow> matrix \<Rightarrow> matrix result" where
  "multiply a m =
     (if matrix_width a \<noteq> matrix_height m
      then Inl (Error ''Invalid matrix dimensions'')
      else Inr (map (\<lambda>i. map (\<lambda>j. sum_list (map (\<lambda>k. a ! i ! k * m ! k ! j)
                                                 [0..<matrix_width a]))
                           [0..<matrix_width m])
                [0..<matrix_height a]))"

definition getValueAt :: "matrix \<Rightarrow> nat \<Rightarrow> nat \<Rightarrow> num option" where
  "getValueAt m i j =
     (if i < matrix_height m \<and> j < matrix_width m then Some (m ! i ! j) else None)"

text \<open>In arithmetic, null counts as 0.\<close>

definition toNumber :: "num option \<Rightarrow> num" where
  "toNumber v = (case v of None \<Rightarrow> 0 | Some x \<Rightarrow> x)"

text \<open>\<^verbatim>\<open>Math.round\<close>: the nearest integer, a tie going up.\<close>

definition Math_round :: "num \<Rightarrow> int" where
  "Math_round x = \<lfloor>x + 1 / 2\<rfloor>"

datatype vec2 = Vec2 int int

text \<open>
  \<^verbatim>\<open>multiplyByVector\<close> comes from \<^verbatim>\<open>X.matrixHelper\<close>, which is not part of the
  renderer's file: it is the parameter \<open>multiplyByVector\<close>. The two calls of \<^verbatim>\<open>multiply\<close>
  are statements: what they return is not used.
\<close>

definition convertWorldToDisplayCoordinates ::
  "(matrix \<Rightarrow> vec3 \<Rightarrow> matrix result) \<Rightarrow> state \<Rightarrow> vec3 \<Rightarrow> vec2 result" where
  "convertWorldToDisplayCoordinates multiplyByVector s vector =
     (case this_camera s of
        None \<Rightarrow> Inl TypeError
      | Some cam \<Rightarrow>
          (let view = getView cam;
               perspective = getPerspective cam;
               viewPerspective = createIdentityMatrix 4
           in case multiply viewPerspective view of
                Inl e \<Rightarrow> Inl e
              | Inr product1 \<Rightarrow>
                  (case multiply viewPerspective perspective of
                     Inl e \<Rightarrow> Inl e
                   | Inr product2 \<Rightarrow>
                       (case multiplyByVector viewPerspective vector of
                          Inl e \<Rightarrow> Inl e
                        | Inr twoDVectorAsMatrix \<Rightarrow>
                            (let x = (toNumber (getValueAt twoDVectorAsMatrix 0 0) + 1) / 2;
                                 x' = x * getWidth s;
                                 y = (1 - toNumber (getValueAt twoDVectorAsMatrix 0 1)) / 2;
                                 y' = y * getHeight s
                             in Inr (Vec2 (Math_round x') (Math_round y')))))))"

text \<open>
  Modelled from the spec: \<^verbatim>\<open>multiplyByVector\<close> of \<^verbatim>\<open>X.matrixHelper\<close>, which is not part
  of the renderer's file, applies the transform to the vector, with 1 as the fourth
  coordinate. The renderer reads the result at (0, 0) and (0, 1), so the transformed
  vector is returned as one row.
\<close>

definition transform_vector :: "matrix \<Rightarrow> vec3 \<Rightarrow> matrix result" where
  "transform_vector m v =
     (case multiply m [[vx v], [vy v], [vz v], [1]] of
        Inl e \<Rightarrow> Inl e
      | Inr column \<Rightarrow> Inr (transpose column))"

text \<open>
  The conversion in the words of the specification: the identity is composed with the
  view matrix and then with the perspective matrix, the composed transform is applied to
  the vector, and x and y are mapped to pixels.
\<close>

definition claimed_convertWorldToDisplayCoordinates ::
  "(matrix \<Rightarrow> vec3 \<Rightarrow> matrix result) \<Rightarrow> state \<Rightarrow> vec3 \<Rightarrow> vec2 result" where
  "claimed_convertWorldToDisplayCoordinates multiplyByVector s vector =
     (case this_camera s of
        None \<Rightarrow> Inl TypeError
      | Some cam \<Rightarrow>
          (case multiply (createIdentityMatrix 4) (getView cam) of
             Inl e \<Rightarrow> Inl e
           | Inr withView \<Rightarrow>
               (case multiply withView (getPerspective cam) of
                  Inl e \<Rightarrow> Inl e
                | Inr composed \<Rightarrow>
                    (case multiplyByVector composed vector of
                       Inl e \<Rightarrow> Inl e
                     | Inr normalized \<Rightarrow>
                         Inr (Vec2
                           (Math_round (((toNumber (getValueAt normalized 0 0) + 1) / 2)
                              * this_width s))
                           (Math_round (((1 - toNumber (getValueAt normalized 0 1)) / 2)
                              * this_height s)))))))"

section \<open>Histories of calls\<close>

text \<open>
  What can happen to a renderer between its construction and now: the calls of its own
  methods, each with what the host answers, and two things done from outside: the
  caller writes its own objects and containers, and the camera, once there, moves.
\<close>

datatype call =
    SetWidth num
  | SetHeight num
  | SetBackgroundColor string
  | GetContainer host
  | SetContainer "elem option"
  | SetContainerById host string
  | Init host
  | AddShaders host "string option" "string option"
  | AddObject jsvalue
  | Render
  | CallerWrites "xobject list" "vec3 list list" "color list list"
  | CameraMoves camera

fun step :: "call \<Rightarrow> state \<Rightarrow> state" where
  "step (SetWidth width) s = setWidth width s"
| "step (SetHeight height) s = setHeight height s"
| "step (SetBackgroundColor backgroundColor) s = setBackgroundColor backgroundColor s"
| "step (GetContainer h) s = snd (getContainer h s)"
| "step (SetContainer container) s = snd (setContainer container s)"
| "step (SetContainerById h containerId) s = snd (setContainerById h containerId s)"
| "step (Init h) s = snd (init h s)"
| "step (AddShaders h fragmentShader vertexShader) s =
     snd (addShaders h fragmentShader vertexShader s)"
| "step (AddObject object) s = snd (addObject object s)"
| "step Render s = snd (render s)"
| "step (CallerWrites objects points colors) s =
     s\<lparr>heap_objects := objects, heap_points := points, heap_colors := colors\<rparr>"
| "step (CameraMoves cam) s =
     (case this_camera s of None \<Rightarrow> s | Some old \<Rightarrow> s\<lparr>this_camera := Some cam\<rparr>)"

fun run :: "call list \<Rightarrow> state \<Rightarrow> state" where
  "run [] s = s"
| "run (c # cs) s = run cs (step c s)"

text \<open>The identifiers that the successful \<^verbatim>\<open>addObject\<close> calls of a history return, in order.\<close>

fun returned_ids :: "call list \<Rightarrow> state \<Rightarrow> int list" where
  "returned_ids [] s = []"
| "returned_ids (AddObject object # cs) s =
     (case fst (addObject object s) of
        Inl e \<Rightarrow> returned_ids cs (step (AddObject object) s)
      | Inr uniqueId \<Rightarrow> uniqueId # returned_ids cs (step (AddObject object) s))"
| "returned_ids (c # cs) s = returned_ids cs (step c s)"

fun is_AddShaders :: "call \<Rightarrow> bool" where
  "is_AddShaders (AddShaders h fragmentShader vertexShader) = True"
| "is_AddShaders c = False"

definition all_null :: "state \<Rightarrow> bool" where
  "all_null s = (this_canvas s = None \<and> this_gl s = None \<and> this_camera s = None)"

definition all_set :: "state \<Rightarrow> bool" where
  "all_set s = (\<exists>canvas g cam.
     this_canvas s = Some canvas \<and> this_gl s = Some g \<and> this_camera s = Some cam)"

text \<open>The three-way color policy, in the words of the specification.\<close>

definition policy_colors :: "color option \<Rightarrow> nat \<Rightarrow> color list \<Rightarrow> color list" where
  "policy_colors objectColor pointCount pointColors =
     (case objectColor of
        Some C \<Rightarrow> replicate pointCount C
      | None \<Rightarrow>
          if length pointColors = pointCount then pointColors
          else replicate pointCount (Color 1 1 1 1))"

section \<open>Example hosts and scenes\<close>

definition example_camera :: camera where
  "example_camera = \<lparr>getView = createIdentityMatrix 4, getPerspective = createIdentityMatrix 4\<rparr>"

definition example_host :: host where
  "example_host =
     \<lparr>document_body = Some DocumentBody, getElement = (\<lambda>containerId. None),
      getContext = Returns (Some 0), gl_throws = (\<lambda>c. None),
      new_camera = Returns example_camera,
      compile_status = (\<lambda>shader. True), link_status = (\<lambda>program. True)\<rparr>"

definition example_host_no_webgl :: host where
  "example_host_no_webgl = example_host\<lparr>getContext := Returns None\<rparr>"

definition example_initialized :: state where
  "example_initialized = snd (init example_host (X_renderer 640 480))"

definition example_no_webgl :: state where
  "example_no_webgl = snd (init example_host_no_webgl (X_renderer 640 480))"

text \<open>A host whose context throws at \<^verbatim>\<open>gl.enable\<close>, in the middle of step 3.\<close>

definition example_host_enable_throws :: host where
  "example_host_enable_throws = example_host
     \<lparr>gl_throws := (\<lambda>c. if c = Enable_DEPTH_TEST then Some ''context lost'' else None)\<rparr>"

definition example_enable_throws :: state where
  "example_enable_throws = snd (init example_host_enable_throws (X_renderer 640 480))"

text \<open>A camera whose view mirrors the x axis, on the example renderer.\<close>

definition example_mirror_camera :: camera where
  "example_mirror_camera =
     \<lparr>getView = [[-1, 0, 0, 0], [0, 1, 0, 0], [0, 0, 1, 0], [0, 0, 0, 1]],
      getPerspective = createIdentityMatrix 4\<rparr>"

definition example_mirrored :: state where
  "example_mirrored = example_initialized\<lparr>this_camera := Some example_mirror_camera\<rparr>"

text \<open>
  A scene on the initialized example renderer: five points, a container of three colors
  and one of five, and three objects on these points: one without a color whose
  per-point colors do not match, one with a color of its own, and one without a color
  whose per-point colors match.
\<close>

definition example_points :: "vec3 list" where
  "example_points = [Vec3 0 0 0, Vec3 1 0 0, Vec3 0 1 0, Vec3 1 1 0, Vec3 0 0 1]"

definition example_object_mismatch :: xobject where
  "example_object_mismatch = \<lparr>object_color = None, object_points = 0, object_colors = 0\<rparr>"

definition example_object_colored :: xobject where
  "example_object_colored =
     \<lparr>object_color = Some (Color 1 0 0 1), object_points = 0, object_colors = 0\<rparr>"

definition example_object_per_point :: xobject where
  "example_object_per_point = \<lparr>object_color = None, object_points = 0, object_colors = 1\<rparr>"

definition example_three_colors :: "color list" where
  "example_three_colors = [Color 1 0 0 1, Color 0 1 0 1, Color 0 0 1 1]"

definition example_five_colors :: "color list" where
  "example_five_colors =
     [Color 1 0 0 1, Color 0 1 0 1, Color 0 0 1 1, Color 1 1 0 1, Color 0 1 1 (1 / 2)]"

definition example_scene :: state where
  "example_scene = example_initialized
     \<lparr>heap_objects := [example_object_mismatch, example_object_colored, example_object_per_point],
      heap_points := [example_points],
      heap_colors := [example_three_colors, example_five_colors]\<rparr>"

definition example_added :: state where
  "example_added = snd (addObject (JRef 0) example_scene)"

text \<open>A history that initializes, lets the caller build the scene, and adds its three objects.\<close>

definition example_added2 :: state where
  "example_added2 = snd (addObject (JRef 1) example_added)"

definition example_history :: "call list" where
  "example_history =
     [Init example_host,
      CallerWrites [example_object_mismatch, example_object_colored, example_object_per_point]
        [example_points] [example_three_colors, example_five_colors],
      AddObject (JRef 0), AddObject (JRef 1), AddObject (JRef 2)]"

section \<open>What a call leaves as it was\<close>

text \<open>Groups of fields, to say in one equation that a call did not touch them.\<close>

definition live :: "state \<Rightarrow> elem option \<times> glctx option \<times> camera option" where
  "live s = (this_canvas s, this_gl s, this_camera s)"

definition registry ::
  "state \<Rightarrow> int \<times> (int \<times> addr) list \<times> (int \<times> buffer) list \<times> (int \<times> buffer) list" where
  "registry s = (this_id s, this_objects s, this_vertexBuffers s, this_colorBuffers s)"

definition heaps :: "state \<Rightarrow> xobject list \<times> vec3 list list \<times> color list list" where
  "heaps s = (heap_objects s, heap_points s, heap_colors s)"

definition kept ::
  "state \<Rightarrow> (elem option \<times> glctx option \<times> camera option) \<times> glprogram option
     \<times> xobject list \<times> vec3 list list" where
  "kept s = ((this_canvas s, this_gl s, this_camera s), this_shaderProgram s,
             heap_objects s, heap_points s)"

definition core ::
  "state \<Rightarrow> (int \<times> (int \<times> addr) list \<times> (int \<times> buffer) list \<times> (int \<times> buffer) list)
     \<times> glprogram option \<times> (xobject list \<times> vec3 list list \<times> color list list)" where
  "core s = (registry s, this_shaderProgram s, heaps s)"

definition untraced :: "state \<Rightarrow> state" where
  "untraced s = s\<lparr>trace := []\<rparr>"

text \<open>The color heap after a call: as before, or with one new container at its end.\<close>

definition colors_grow :: "state \<Rightarrow> state \<Rightarrow> bool" where
  "colors_grow s s1 =
     (heap_colors s1 = heap_colors s \<or> (\<exists>new. heap_colors s1 = heap_colors s @ [new]))"

text \<open>No key of the registry is above the counter.\<close>

definition id_inv :: "state \<Rightarrow> bool" where
  "id_inv s = (\<forall>k \<in> set (Map_getKeys (this_objects s)). k \<le> this_id s)"

section \<open>Lemmas\<close>

declare add_loop.simps [simp del]

subsection \<open>The registry maps\<close>

lemma Map_containsKey_keys: "Map_containsKey m k = (k \<in> set (Map_getKeys m))"
  by (simp add: Map_containsKey_def Map_getKeys_def map_of_eq_None_iff)

lemma Map_getKeys_set: "set (Map_getKeys (Map_set k v m)) = insert k (set (Map_getKeys m))"
  by (induction m) (auto simp: Map_getKeys_def)

lemma Map_get_set: "Map_get (Map_set k v m) k = Some v"
  by (induction m) (auto simp: Map_get_def)

lemma add_loop_exact:
  assumes "heap_get (heap_points s) p = Some ps" and "c < length (heap_colors s)"
  shows "add_loop i p c oc s =
     (Inr (), s\<lparr>heap_colors := (heap_colors s)[c := heap_colors s ! c @ replicate (length ps - i) oc]\<rparr>)"
  using assms
proof (induction "length ps - i" arbitrary: i s)
  case 0
  then have "\<not> i < length ps" by simp
  with 0 show ?case
    by (subst add_loop.simps) (simp add: points_count_def)
next
  case (Suc k)
  then have lt: "i < length ps" and k: "k = length ps - Suc i" by simp_all
  let ?s1 = "s\<lparr>heap_colors := (heap_colors s)[c := heap_colors s ! c @ [oc]]\<rparr>"
  have add: "X_colors_add c oc s = (Inr (), ?s1)"
    using Suc.prems by (simp add: X_colors_add_def heap_get_def)
  have rec: "add_loop (Suc i) p c oc ?s1 =
     (Inr (), ?s1\<lparr>heap_colors := (heap_colors ?s1)[c := heap_colors ?s1 ! c @ replicate (length ps - Suc i) oc]\<rparr>)"
    using Suc.hyps(1)[OF k, of ?s1] Suc.prems by simp
  have rep: "replicate (length ps - i) oc = oc # replicate (length ps - Suc i) oc"
    using lt by (simp add: Suc_diff_Suc flip: replicate_Suc)
  have "add_loop i p c oc s = add_loop (Suc i) p c oc ?s1"
    using Suc.prems lt add by (subst add_loop.simps) (simp add: points_count_def)
  then show ?case
    using rec Suc.prems(2) by (simp add: rep)
qed

lemma add_loop_dangling:
  assumes "heap_get (heap_points s) p = None"
  shows "add_loop i p c oc s = (Inl TypeError, s)"
  using assms by (subst add_loop.simps) (simp add: points_count_def)

subsection \<open>The steps of addObject\<close>

lemma resolve_colors_valid:
  assumes ps: "heap_get (heap_points s) (object_points ob) = Some ps"
    and cs: "object_color ob = None \<longrightarrow> heap_get (heap_colors s) (object_colors ob) = Some cs"
  shows "\<exists>colors s1. resolve_colors ob s = (Inr colors, s1)
      \<and> heap_get (heap_colors s1) colors = Some (policy_colors (object_color ob) (length ps) cs)
      \<and> (s1 = s \<or> (\<exists>new. s1 = s\<lparr>heap_colors := heap_colors s @ [new]\<rparr>))"
proof -
  let ?s1 = "s\<lparr>heap_colors := heap_colors s @ [[]]\<rparr>"
  have loop: "add_loop 0 (object_points ob) (length (heap_colors s)) oc ?s1 =
      (Inr (), s\<lparr>heap_colors := heap_colors s @ [replicate (length ps) oc]\<rparr>)" for oc
    using add_loop_exact [of ?s1 "object_points ob" ps "length (heap_colors s)" 0 oc] ps
    by simp
  show ?thesis
  proof (cases "object_color ob")
    case (Some C)
    then show ?thesis
      using loop [of C]
      by (auto simp: resolve_colors_def check_colors_def X_colors_new_def policy_colors_def
          heap_get_def)
  next
    case None
    with cs have c: "heap_get (heap_colors s) (object_colors ob) = Some cs" by simp
    show ?thesis
    proof (cases "length ps = length cs")
      case True
      with None ps c show ?thesis
        by (simp add: resolve_colors_def check_colors_def points_count_def colors_count_def
            policy_colors_def)
    next
      case False
      with None ps c show ?thesis
        using loop [of "X_color 1 1 1"]
        by (auto simp: resolve_colors_def check_colors_def points_count_def colors_count_def
            X_colors_new_def policy_colors_def heap_get_def X_color_def)
    qed
  qed
qed

lemma resolve_colors_any:
  "\<exists>r s1. resolve_colors ob s = (r, s1)
      \<and> (s1 = s \<or> (\<exists>new. s1 = s\<lparr>heap_colors := heap_colors s @ [new]\<rparr>))"
proof (cases "heap_get (heap_points s) (object_points ob)")
  case None
  let ?s1 = "s\<lparr>heap_colors := heap_colors s @ [[]]\<rparr>"
  have loop: "add_loop 0 (object_points ob) (length (heap_colors s)) oc ?s1 = (Inl TypeError, ?s1)" for oc
    using add_loop_dangling [of ?s1 "object_points ob"] None by simp
  show ?thesis
    using None loop
    by (auto simp: resolve_colors_def check_colors_def points_count_def colors_count_def
        X_colors_new_def split: option.splits)
next
  case (Some ps)
  show ?thesis
  proof (cases "object_color ob = None \<and> heap_get (heap_colors s) (object_colors ob) = None")
    case True
    with Some show ?thesis
      by (simp add: resolve_colors_def check_colors_def points_count_def colors_count_def)
  next
    case False
    then have "object_color ob = None \<longrightarrow> heap_get (heap_colors s) (object_colors ob)
        = Some (the (heap_get (heap_colors s) (object_colors ob)))"
      by auto
    from resolve_colors_valid [OF Some this] show ?thesis by blast
  qed
qed

lemma upload_points_valid:
  assumes "heap_get (heap_points s) (object_points ob) = Some ps"
  shows "upload_points ob s = (Inr (X_buffer (gl_objects s) (length ps) 3),
     s\<lparr>gl_objects := Suc (gl_objects s),
       trace := trace s @ [GL CreateBuffer, GL (BindBuffer_ARRAY_BUFFER (gl_objects s)),
         GL (BufferData_ARRAY_BUFFER_STATIC_DRAW (Float32Array (points_flatten ps)))]\<rparr>)"
  using assms by (simp add: upload_points_def gl_create_def gl_def emit_def)

lemma upload_colors_valid:
  assumes "heap_get (heap_colors s) colors = Some cs"
  shows "upload_colors colors s = (Inr (X_buffer (gl_objects s) (length cs) 4),
     s\<lparr>gl_objects := Suc (gl_objects s),
       trace := trace s @ [GL CreateBuffer, GL (BindBuffer_ARRAY_BUFFER (gl_objects s)),
         GL (BufferData_ARRAY_BUFFER_STATIC_DRAW (Float32Array (colors_flatten cs)))]\<rparr>)"
  using assms by (simp add: upload_colors_def gl_create_def gl_def emit_def)

lemma upload_points_kept:
  "upload_points ob s = (r, s1) \<Longrightarrow>
     kept s1 = kept s \<and> registry s1 = registry s \<and> heap_colors s1 = heap_colors s"
  by (auto simp: upload_points_def gl_create_def gl_def emit_def kept_def registry_def Let_def
      split: option.splits)

lemma upload_colors_kept:
  "upload_colors colors s = (r, s1) \<Longrightarrow>
     kept s1 = kept s \<and> registry s1 = registry s \<and> heap_colors s1 = heap_colors s"
  by (auto simp: upload_colors_def gl_create_def gl_def emit_def kept_def registry_def Let_def
      split: option.splits)

lemma resolve_colors_kept:
  assumes "resolve_colors ob s = (r, s1)"
  shows "kept s1 = kept s \<and> registry s1 = registry s \<and> trace s1 = trace s
     \<and> gl_objects s1 = gl_objects s
     \<and> (heap_colors s1 = heap_colors s \<or> (\<exists>new. heap_colors s1 = heap_colors s @ [new]))"
  using resolve_colors_any [of ob s] assms by (auto simp: kept_def registry_def)

lemma register_kept:
  "register a vb cb s = (r, s1) \<Longrightarrow>
     kept s1 = kept s \<and> heap_colors s1 = heap_colors s \<and> trace s1 = trace s"
  by (auto simp: register_def kept_def Let_def split: if_splits)

lemma addObject_shape:
  "\<exists>s3. kept s3 = kept s \<and> registry s3 = registry s \<and> colors_grow s s3
     \<and> ((\<exists>e. addObject object s = (Inl e, s3))
        \<or> (\<exists>a vertexBuffer colorBuffer. addObject object s = register a vertexBuffer colorBuffer s3))"
proof (cases "this_canvas s = None \<or> this_gl s = None \<or> this_camera s = None")
  case True
  then have "addObject object s = (Inl (X_exception ''Fatal: Renderer was not initialized properly!''), s)"
    by (simp add: addObject_def)
  then show ?thesis by (auto simp: colors_grow_def)
next
  case init: False
  show ?thesis
  proof (cases "\<exists>a ob. object = JRef a \<and> heap_get (heap_objects s) a = Some ob")
    case False
    with init have "addObject object s = (Inl (X_exception ''Fatal: Illegal object!''), s)"
      by (auto simp: addObject_def split: jsvalue.splits option.splits)
    then show ?thesis by (auto simp: colors_grow_def)
  next
    case True
    then obtain a ob where a: "object = JRef a" "heap_get (heap_objects s) a = Some ob"
      by blast
    obtain r1 s1 where r1: "resolve_colors ob s = (r1, s1)" by (cases "resolve_colors ob s")
    note k1 = resolve_colors_kept [OF r1]
    then have g1: "colors_grow s s1" by (simp add: colors_grow_def)
    show ?thesis
    proof (cases r1)
      case (Inl e)
      with init a r1 have "addObject object s = (Inl e, s1)" by (auto simp: addObject_def)
      with k1 g1 show ?thesis by blast
    next
      case colors: (Inr colors)
      obtain r2 s2 where r2: "upload_points ob s1 = (r2, s2)" by (cases "upload_points ob s1")
      note k2 = upload_points_kept [OF r2]
      from k2 g1 have g2: "colors_grow s s2" by (simp add: colors_grow_def)
      show ?thesis
      proof (cases r2)
        case (Inl e)
        with init a r1 colors r2 have "addObject object s = (Inl e, s2)"
          by (auto simp: addObject_def)
        with k1 k2 g2 show ?thesis by (metis (no_types))
      next
        case vb: (Inr vertexBuffer)
        obtain r3 s3 where r3: "upload_colors colors s2 = (r3, s3)"
          by (cases "upload_colors colors s2")
        note k3 = upload_colors_kept [OF r3]
        from k3 g2 have g3: "colors_grow s s3" by (simp add: colors_grow_def)
        from k1 k2 k3 have k: "kept s3 = kept s" "registry s3 = registry s" by simp_all
        show ?thesis
        proof (cases r3)
          case (Inl e)
          with init a r1 colors r2 vb r3 have "addObject object s = (Inl e, s3)"
            by (auto simp: addObject_def)
          with k g3 show ?thesis by blast
        next
          case (Inr colorBuffer)
          with init a r1 colors r2 vb r3
          have "addObject object s = register a vertexBuffer colorBuffer s3"
            by (auto simp: addObject_def)
          with k g3 show ?thesis by blast
        qed
      qed
    qed
  qed
qed

lemma addObject_kept:
  assumes "addObject object s = (r, s')"
  shows "kept s' = kept s \<and> colors_grow s s'"
proof -
  from addObject_shape [of s object] obtain s3 where
    k: "kept s3 = kept s" "colors_grow s s3" and
    c: "(\<exists>e. addObject object s = (Inl e, s3))
        \<or> (\<exists>a vertexBuffer colorBuffer. addObject object s = register a vertexBuffer colorBuffer s3)"
    by blast
  from c show ?thesis
  proof
    assume "\<exists>e. addObject object s = (Inl e, s3)"
    with assms k show ?thesis by auto
  next
    assume "\<exists>a vertexBuffer colorBuffer. addObject object s = register a vertexBuffer colorBuffer s3"
    then obtain a vb cb where "register a vb cb s3 = (r, s')" using assms by auto
    from register_kept [OF this] k show ?thesis by (simp add: colors_grow_def)
  qed
qed

lemma addObject_ids:
  assumes "addObject object s = (r, s')" and "id_inv s"
  shows "id_inv s' \<and>
     ((\<exists>e. r = Inl e) \<and> this_id s' = this_id s
      \<or> r = Inr (this_id s + 1) \<and> this_id s' = this_id s + 1)"
proof -
  from addObject_shape [of s object] obtain s3 where
    k: "registry s3 = registry s" and
    c: "(\<exists>e. addObject object s = (Inl e, s3))
        \<or> (\<exists>a vertexBuffer colorBuffer. addObject object s = register a vertexBuffer colorBuffer s3)"
    by blast
  from k have eq: "this_id s3 = this_id s" "this_objects s3 = this_objects s"
    by (simp_all add: registry_def)
  from c show ?thesis
  proof
    assume "\<exists>e. addObject object s = (Inl e, s3)"
    with assms eq show ?thesis by (auto simp: id_inv_def)
  next
    assume "\<exists>a vertexBuffer colorBuffer. addObject object s = register a vertexBuffer colorBuffer s3"
    then obtain a vb cb where reg: "register a vb cb s3 = (r, s')" using assms by auto
    have fresh: "\<not> Map_containsKey (this_objects s3) (this_id s3 + 1)"
      using assms(2) eq by (auto simp: Map_containsKey_keys id_inv_def)
    with reg eq assms(2) show ?thesis
      by (fastforce simp: register_def Let_def id_inv_def Map_getKeys_set)
  qed
qed

subsection \<open>init, addShaders and render\<close>

lemma untraced_fields:
  assumes "untraced s' = untraced s"
  shows "registry s' = registry s \<and> live s' = live s \<and> heaps s' = heaps s
     \<and> this_shaderProgram s' = this_shaderProgram s"
proof -
  have "registry (untraced s') = registry (untraced s) \<and> live (untraced s') = live (untraced s)
     \<and> heaps (untraced s') = heaps (untraced s)
     \<and> this_shaderProgram (untraced s') = this_shaderProgram (untraced s)"
    by (simp only: assms)
  then show ?thesis
    by (simp add: untraced_def registry_def live_def heaps_def)
qed

lemma untraced_gl: "untraced (gl c s) = untraced s"
  by (simp add: untraced_def gl_def emit_def)

lemma gl_try_only_trace: "gl_try h cs s = (r, s') \<Longrightarrow> untraced s' = untraced s"
  by (induction cs arbitrary: s) (auto simp: untraced_gl split: option.splits)

lemma render_loop_only_trace: "render_loop ks s = (e, s') \<Longrightarrow> untraced s' = untraced s"
proof (induction ks arbitrary: s)
  case Nil
  then show ?case by simp
next
  case (Cons k ks)
  from Cons.prems show ?case
    by (auto simp: Let_def untraced_gl split: option.splits dest!: Cons.IH)
qed

lemma render_loop_exn: "fst (render_loop ks s) = StopIteration \<or> fst (render_loop ks s) = TypeError"
  by (induction ks arbitrary: s) (auto simp: Let_def split: option.splits)

lemma render_only_trace: "render s = (r, s') \<Longrightarrow> untraced s' = untraced s"
  by (auto simp: render_def Let_def untraced_gl split: option.splits prod.splits exn.splits
      dest!: render_loop_only_trace)

lemma core_emit: "core (emit e s) = core s" "live (emit e s) = live s"
  by (simp_all add: core_def live_def registry_def heaps_def emit_def)

lemma core_gl: "core (gl c s) = core s" "live (gl c s) = live s"
  by (simp_all add: gl_def core_emit)

lemma core_updates:
  "core (s\<lparr>this_container := c\<rparr>) = core s" "live (s\<lparr>this_container := c\<rparr>) = live s"
  "core (s\<lparr>dom_elements := d\<rparr>) = core s" "live (s\<lparr>dom_elements := d\<rparr>) = live s"
  "core (s\<lparr>this_canvas := cv, this_gl := g, this_camera := cam\<rparr>) = core s"
  "live (s\<lparr>this_canvas := Some canvas, this_gl := Some g', this_camera := Some cam'\<rparr>)
     = (Some canvas, Some g', Some cam')"
  by (simp_all add: core_def live_def registry_def heaps_def)

lemma gl_try_core: "gl_try h cs s = (r, s') \<Longrightarrow> core s' = core s \<and> live s' = live s"
  by (induction cs arbitrary: s) (auto simp: core_gl split: option.splits)

lemma getContainer_core: "getContainer h s = (r, s') \<Longrightarrow> core s' = core s \<and> live s' = live s"
  by (auto simp: getContainer_def core_updates split: option.splits)

lemma init_core: "init h s = (r, s') \<Longrightarrow> core s' = core s"
  by (auto simp: init_def Let_def core_emit core_updates
      split: option.splits prod.splits sum.splits outcome.splits
      dest!: gl_try_core getContainer_core)

lemma init_fails_live: "init h s = (Inl e, s') \<Longrightarrow> live s' = live s"
  by (auto simp: init_def Let_def core_emit core_updates
      split: option.splits prod.splits sum.splits outcome.splits
      dest!: gl_try_core getContainer_core)

lemma init_succeeds_live:
  "init h s = (Inr u, s') \<Longrightarrow> this_canvas s = None \<Longrightarrow>
     \<exists>canvas g cam. live s' = (Some canvas, Some g, Some cam)"
  by (auto simp: init_def Let_def core_updates
      split: option.splits prod.splits sum.splits outcome.splits)

lemma gl_try_succeeds:
  "gl_try h cs s = (None, s') \<Longrightarrow>
     (\<forall>c \<in> set cs. gl_throws h c = None) \<and> s' = s\<lparr>trace := trace s @ map GL cs\<rparr>"
proof (induction cs arbitrary: s)
  case Nil
  then show ?case by simp
next
  case (Cons c cs)
  from Cons.prems have n: "gl_throws h c = None" and r: "gl_try h cs (gl c s) = (None, s')"
    by (auto split: option.splits)
  from Cons.IH [OF r] n show ?case by (simp add: gl_def emit_def)
qed

lemma init_configure_same:
  "this_width s1 = this_width s \<Longrightarrow> this_height s1 = this_height s \<Longrightarrow>
     init_configure s1 = init_configure s"
  by (simp add: init_configure_def getWidth_def getHeight_def)

lemma init_succeeds_steps:
  assumes i: "init h s = (Inr u, s')" and n: "this_canvas s = None"
  shows "\<exists>container g cam.
      (this_container s = Some container
         \<or> this_container s = None \<and> document_body h = Some container)
      \<and> getContext h = Returns (Some g)
      \<and> (\<forall>c \<in> set (init_configure s). gl_throws h c = None)
      \<and> new_camera h = Returns cam
      \<and> s' = s\<lparr>dom_elements := Suc (dom_elements s), this_container := Some container,
               trace := trace s @ init_events container s,
               this_canvas := Some (Created (dom_elements s)), this_gl := Some g,
               this_camera := Some cam\<rparr>"
proof -
  let ?canvas = "Created (dom_elements s)"
  let ?s4 = "s\<lparr>dom_elements := Suc (dom_elements s),
       trace := trace s @ [CreateDom_canvas ?canvas,
         StyleSetProperty ?canvas ''background-color'' (Str (this_backgroundColor s)),
         SetCanvasWidth ?canvas (this_width s), SetCanvasHeight ?canvas (this_height s)]\<rparr>"
  obtain rc s5 where gc: "getContainer h ?s4 = (rc, s5)" by (cases "getContainer h ?s4")
  from i n gc have unf: "(case (rc, s5) of
                (Inl e, s5) \<Rightarrow> (Inl e, s5)
              | (Inr container, s5) \<Rightarrow>
                  (let s6 = emit (AppendChild container ?canvas) s5;
                       s7 = emit (GetContext_experimental_webgl ?canvas) s6
                   in case getContext h of
                        Throws e \<Rightarrow>
                          (Inl (X_exception
                             (''Fatal: Exception while getting GL Context!'' @ CHR 0x0A # e)), s7)
                      | Returns None \<Rightarrow>
                          (Inl (X_exception ''Fatal: WebGL not supported!''), s7)
                      | Returns (Some g) \<Rightarrow>
                          (case gl_try h (init_configure s7) s7 of
                             (Some e, s8) \<Rightarrow>
                               (Inl (X_exception
                                  (''Fatal: Exception while accessing GL Context!'' @ CHR 0x0A # e)), s8)
                           | (None, s8) \<Rightarrow>
                               (let s9 = emit New_camera s8
                                in case new_camera h of
                                     Throws e \<Rightarrow> (Inl (Error e), s9)
                                   | Returns cam \<Rightarrow>
                                       (Inr (), s9\<lparr>this_canvas := Some ?canvas,
                                                  this_gl := Some g,
                                                  this_camera := Some cam\<rparr>))))) = (Inr u, s')"
    by (simp add: init_def Let_def emit_def getBackgroundColor_def getWidth_def getHeight_def)
  then obtain container where rc: "rc = Inr container" by (cases rc) auto
  from gc rc have cont: "(this_container s = Some container
         \<or> this_container s = None \<and> document_body h = Some container)"
    and s5: "s5 = ?s4\<lparr>this_container := Some container\<rparr>"
    by (auto simp: getContainer_def split: option.splits)
  let ?s7 = "s\<lparr>dom_elements := Suc (dom_elements s), this_container := Some container,
       trace := trace s @ [CreateDom_canvas ?canvas,
         StyleSetProperty ?canvas ''background-color'' (Str (this_backgroundColor s)),
         SetCanvasWidth ?canvas (this_width s), SetCanvasHeight ?canvas (this_height s),
         AppendChild container ?canvas, GetContext_experimental_webgl ?canvas]\<rparr>"
  have conf: "init_configure ?s7 = init_configure s" by (rule init_configure_same) simp_all
  obtain rg s8 where gt: "gl_try h (init_configure s) ?s7 = (rg, s8)"
    by (cases "gl_try h (init_configure s) ?s7")
  from conf gt rc s5 unf obtain g where g: "getContext h = Returns (Some g)"
    by (auto simp: Let_def emit_def split: outcome.splits option.splits)
  from conf gt g rc s5 unf have rg: "rg = None"
    by (cases rg) (auto simp: Let_def emit_def)
  from gl_try_succeeds [OF gt [unfolded rg]]
  have ok: "\<forall>c \<in> set (init_configure s). gl_throws h c = None"
    and s8: "s8 = ?s7\<lparr>trace := trace ?s7 @ map GL (init_configure s)\<rparr>" by simp_all
  from conf gt g rg rc s5 unf obtain cam where cam: "new_camera h = Returns cam"
    by (auto simp: Let_def emit_def split: outcome.splits)
  from conf gt g rg cam rc s5 s8 unf
  have "s' = s\<lparr>dom_elements := Suc (dom_elements s), this_container := Some container,
               trace := trace s @ init_events container s,
               this_canvas := Some ?canvas, this_gl := Some g, this_camera := Some cam\<rparr>"
    by (simp add: Let_def emit_def init_events_def)
  with cont g ok cam show ?thesis by blast
qed

lemma link_shaders_core:
  "link_shaders h f v s = (r, s') \<Longrightarrow> registry s' = registry s \<and> live s' = live s \<and> heaps s' = heaps s"
  by (auto simp: link_shaders_def gl_create_def gl_def emit_def Let_def registry_def heaps_def
      live_def split: if_splits)

lemma addShaders_core:
  "addShaders h f v s = (r, s') \<Longrightarrow> registry s' = registry s \<and> live s' = live s \<and> heaps s' = heaps s"
proof -
  have pre: "registry (gl c s0) = registry s0 \<and> live (gl c s0) = live s0 \<and> heaps (gl c s0) = heaps s0"
    "registry (snd (gl_create c s0)) = registry s0 \<and> live (snd (gl_create c s0)) = live s0
      \<and> heaps (snd (gl_create c s0)) = heaps s0" for c s0
    by (simp_all add: gl_create_def gl_def emit_def registry_def live_def heaps_def)
  assume "addShaders h f v s = (r, s')"
  then show ?thesis
    by (auto simp: addShaders_def Let_def pre split_beta
        split: if_splits option.splits dest!: link_shaders_core)
qed

subsection \<open>addObject on a well-formed object\<close>

lemma length_policy_colors: "length (policy_colors c n cs) = n"
  by (simp add: policy_colors_def split: option.splits)

lemma addObject_exact:
  assumes init: "all_set s"
    and ob: "heap_get (heap_objects s) a = Some ob"
    and ps: "heap_get (heap_points s) (object_points ob) = Some ps"
    and cs: "object_color ob = None \<longrightarrow> heap_get (heap_colors s) (object_colors ob) = Some cs"
  shows "\<exists>s1. (s1 = s \<or> (\<exists>new. s1 = s\<lparr>heap_colors := heap_colors s @ [new]\<rparr>))
     \<and> addObject (JRef a) s =
         register a (X_buffer (gl_objects s) (length ps) 3)
           (X_buffer (Suc (gl_objects s)) (length ps) 4)
           (s1\<lparr>gl_objects := Suc (Suc (gl_objects s)),
               trace := trace s @
                 [GL CreateBuffer, GL (BindBuffer_ARRAY_BUFFER (gl_objects s)),
                  GL (BufferData_ARRAY_BUFFER_STATIC_DRAW (Float32Array (points_flatten ps))),
                  GL CreateBuffer, GL (BindBuffer_ARRAY_BUFFER (Suc (gl_objects s))),
                  GL (BufferData_ARRAY_BUFFER_STATIC_DRAW (Float32Array (colors_flatten
                        (policy_colors (object_color ob) (length ps) cs))))]\<rparr>)"
proof -
  let ?pc = "policy_colors (object_color ob) (length ps) cs"
  from resolve_colors_valid [OF ps cs] obtain colors s1 where
    r: "resolve_colors ob s = (Inr colors, s1)"
    and c: "heap_get (heap_colors s1) colors = Some ?pc"
    and s1: "s1 = s \<or> (\<exists>new. s1 = s\<lparr>heap_colors := heap_colors s @ [new]\<rparr>)"
    by blast
  from s1 have same: "heap_points s1 = heap_points s" "gl_objects s1 = gl_objects s"
    "trace s1 = trace s" by auto
  let ?s2 = "s1\<lparr>gl_objects := Suc (gl_objects s1),
       trace := trace s1 @ [GL CreateBuffer, GL (BindBuffer_ARRAY_BUFFER (gl_objects s1)),
         GL (BufferData_ARRAY_BUFFER_STATIC_DRAW (Float32Array (points_flatten ps)))]\<rparr>"
  have up: "upload_points ob s1 = (Inr (X_buffer (gl_objects s1) (length ps) 3), ?s2)"
    using ps same by (intro upload_points_valid) simp
  have c2: "heap_get (heap_colors ?s2) colors = Some ?pc" using c by simp
  note uc = upload_colors_valid [OF c2]
  from init obtain canvas g cam where
    i: "this_canvas s = Some canvas" "this_gl s = Some g" "this_camera s = Some cam"
    by (auto simp: all_set_def)
  have "addObject (JRef a) s =
         register a (X_buffer (gl_objects s) (length ps) 3)
           (X_buffer (Suc (gl_objects s)) (length ps) 4)
           (s1\<lparr>gl_objects := Suc (Suc (gl_objects s)),
               trace := trace s @
                 [GL CreateBuffer, GL (BindBuffer_ARRAY_BUFFER (gl_objects s)),
                  GL (BufferData_ARRAY_BUFFER_STATIC_DRAW (Float32Array (points_flatten ps))),
                  GL CreateBuffer, GL (BindBuffer_ARRAY_BUFFER (Suc (gl_objects s))),
                  GL (BufferData_ARRAY_BUFFER_STATIC_DRAW (Float32Array (colors_flatten ?pc)))]\<rparr>)"
    using i ob r up uc same by (simp add: addObject_def length_policy_colors)
  with s1 show ?thesis by blast
qed

lemma upload_points_dangling:
  "heap_get (heap_points s) (object_points ob) = None \<Longrightarrow> fst (upload_points ob s) = Inl TypeError"
  by (simp add: upload_points_def gl_create_def gl_def emit_def)

lemma resolve_colors_dangling:
  assumes "object_color ob = None" and "heap_get (heap_colors s) (object_colors ob) = None"
  shows "\<exists>e. fst (resolve_colors ob s) = Inl e"
  using assms
  by (auto simp: resolve_colors_def check_colors_def points_count_def colors_count_def
      split: option.splits)

lemma addObject_success_valid:
  assumes "addObject object s = (Inr uniqueId, s')"
  shows "all_set s \<and> (\<exists>a ob ps cs. object = JRef a \<and> heap_get (heap_objects s) a = Some ob
           \<and> heap_get (heap_points s) (object_points ob) = Some ps
           \<and> (object_color ob = None \<longrightarrow> heap_get (heap_colors s) (object_colors ob) = Some cs))"
proof -
  from assms obtain canvas g cam where
    i: "this_canvas s = Some canvas" "this_gl s = Some g" "this_camera s = Some cam"
    by (auto simp: addObject_def split: if_splits)
  then have init: "all_set s" by (simp add: all_set_def)
  from assms i obtain a ob where a: "object = JRef a" "heap_get (heap_objects s) a = Some ob"
    by (auto simp: addObject_def split: jsvalue.splits option.splits)
  obtain r1 s1 where r1: "resolve_colors ob s = (r1, s1)" by (cases "resolve_colors ob s")
  obtain r2 s2 where r2: "upload_points ob s1 = (r2, s2)" by (cases "upload_points ob s1")
  from assms i a r1 obtain colors where c: "r1 = Inr colors"
    by (cases r1) (auto simp: addObject_def)
  from assms i a r1 c r2 obtain vb where v: "r2 = Inr vb"
    by (cases r2) (auto simp: addObject_def)
  from resolve_colors_kept [OF r1] have hp: "heap_points s1 = heap_points s"
    by (simp add: kept_def)
  have "heap_get (heap_points s) (object_points ob) \<noteq> None"
  proof
    assume "heap_get (heap_points s) (object_points ob) = None"
    with hp have "heap_get (heap_points s1) (object_points ob) = None" by simp
    from upload_points_dangling [OF this] r2 v show False by simp
  qed
  then obtain ps where ps: "heap_get (heap_points s) (object_points ob) = Some ps" by blast
  have "\<exists>cs. (object_color ob = None \<longrightarrow> heap_get (heap_colors s) (object_colors ob) = Some cs)"
  proof (cases "object_color ob = None \<and> heap_get (heap_colors s) (object_colors ob) = None")
    case True
    with resolve_colors_dangling [of ob s] r1 c show ?thesis by simp
  next
    case False
    then show ?thesis by auto
  qed
  then obtain cs where
    "object_color ob = None \<longrightarrow> heap_get (heap_colors s) (object_colors ob) = Some cs" ..
  with a ps have "\<exists>a ob ps cs. object = JRef a \<and> heap_get (heap_objects s) a = Some ob
           \<and> heap_get (heap_points s) (object_points ob) = Some ps
           \<and> (object_color ob = None \<longrightarrow> heap_get (heap_colors s) (object_colors ob) = Some cs)"
    by (intro exI conjI)
  with init show ?thesis ..
qed

subsection \<open>Histories\<close>

lemma atomic_live:
  "all_null s = (live s = (None, None, None))"
  "all_set s = (\<exists>canvas g cam. live s = (Some canvas, Some g, Some cam))"
  by (auto simp: all_null_def all_set_def live_def)

lemma setters_core:
  "core (setWidth w s) = core s" "live (setWidth w s) = live s"
  "core (setHeight h s) = core s" "live (setHeight h s) = live s"
  "core (setBackgroundColor b s) = core s" "live (setBackgroundColor b s) = live s"
  by (simp_all add: setWidth_def setHeight_def setBackgroundColor_def emit_def core_def live_def
      registry_def heaps_def Let_def split: option.splits)

lemma setContainer_core:
  "core (snd (setContainer c s)) = core s" "live (snd (setContainer c s)) = live s"
  by (simp_all add: setContainer_def core_def live_def registry_def heaps_def split: option.splits)

lemma render_fields:
  "registry (snd (render s)) = registry s \<and> live (snd (render s)) = live s
     \<and> heaps (snd (render s)) = heaps s
     \<and> this_shaderProgram (snd (render s)) = this_shaderProgram s"
proof -
  obtain r s' where r: "render s = (r, s')" by (cases "render s")
  from untraced_fields [OF render_only_trace [OF r]] r show ?thesis by simp
qed

lemma addObject_fields:
  "live (snd (addObject object s)) = live s
     \<and> this_shaderProgram (snd (addObject object s)) = this_shaderProgram s"
proof -
  obtain r s' where r: "addObject object s = (r, s')" by (cases "addObject object s")
  from addObject_kept [OF r] have "kept s' = kept s" by simp
  then have "live s' = live s \<and> this_shaderProgram s' = this_shaderProgram s"
    by (simp add: kept_def live_def)
  with r show ?thesis by simp
qed

lemma addShaders_fields:
  "registry (snd (addShaders h f v s)) = registry s \<and> live (snd (addShaders h f v s)) = live s"
proof -
  obtain r s' where r: "addShaders h f v s = (r, s')" by (cases "addShaders h f v s")
  from addShaders_core [OF r] r show ?thesis by simp
qed

lemma getContainer_fields:
  "core (snd (getContainer h s)) = core s \<and> live (snd (getContainer h s)) = live s"
proof -
  obtain r s' where r: "getContainer h s = (r, s')" by (cases "getContainer h s")
  from getContainer_core [OF r] r show ?thesis by simp
qed

lemma init_fields: "core (snd (init h s)) = core s"
proof -
  obtain r s' where r: "init h s = (r, s')" by (cases "init h s")
  from init_core [OF r] r show ?thesis by simp
qed

lemma init_atomic:
  assumes "all_null s \<or> all_set s"
  shows "all_null (snd (init h s)) \<or> all_set (snd (init h s))"
proof -
  obtain r s' where i: "init h s = (r, s')" by (cases "init h s")
  have "all_null s' \<or> all_set s'"
  proof (cases r)
    case (Inl e)
    with i have "live s' = live s" by (simp add: init_fails_live)
    with assms show ?thesis by (simp add: atomic_live)
  next
    case (Inr u)
    show ?thesis
    proof (cases "this_canvas s")
      case None
      from init_succeeds_live [of h s u s'] i Inr None show ?thesis by (simp add: atomic_live)
    next
      case (Some canvas)
      with i have "s' = s" by (simp add: init_def)
      with assms show ?thesis by simp
    qed
  qed
  with i show ?thesis by simp
qed

lemma step_atomic:
  assumes "all_null s \<or> all_set s"
  shows "all_null (step c s) \<or> all_set (step c s)"
proof -
  have keep: "live s' = live s \<Longrightarrow> all_null s' \<or> all_set s'" for s'
    using assms by (simp add: atomic_live)
  show ?thesis
  proof (cases c)
    case (SetWidth w)
    then show ?thesis by (simp add: keep setters_core)
  next
    case (SetHeight h)
    then show ?thesis by (simp add: keep setters_core)
  next
    case (SetBackgroundColor b)
    then show ?thesis by (simp add: keep setters_core)
  next
    case (GetContainer h)
    then show ?thesis by (simp add: keep getContainer_fields)
  next
    case (SetContainer e)
    then show ?thesis by (simp add: keep setContainer_core)
  next
    case (SetContainerById h i)
    then show ?thesis by (simp add: keep setContainer_core setContainerById_def)
  next
    case (Init h)
    then show ?thesis using init_atomic [OF assms, of h] by simp
  next
    case (AddShaders h f v)
    then show ?thesis by (simp add: keep addShaders_fields)
  next
    case (AddObject object)
    then show ?thesis by (simp add: keep addObject_fields)
  next
    case Render
    then show ?thesis by (simp add: keep render_fields)
  next
    case (CallerWrites ho hp hc)
    have "live (s\<lparr>heap_objects := ho, heap_points := hp, heap_colors := hc\<rparr>) = live s"
      by (simp add: live_def)
    with CallerWrites show ?thesis by (simp add: keep)
  next
    case (CameraMoves cam)
    with assms show ?thesis
      by (cases "this_camera s") (auto simp: all_null_def all_set_def)
  qed
qed

lemma run_atomic: "all_null s \<or> all_set s \<Longrightarrow> all_null (run cs s) \<or> all_set (run cs s)"
  by (induction cs arbitrary: s) (simp_all add: step_atomic)

lemma step_ids:
  assumes "\<forall>object. c \<noteq> AddObject object"
  shows "this_id (step c s) = this_id s \<and> this_objects (step c s) = this_objects s"
proof -
  have reg: "this_id s' = this_id s \<and> this_objects s' = this_objects s"
    if "registry s' = registry s" for s'
    using that by (simp add: registry_def)
  have cor: "this_id s' = this_id s \<and> this_objects s' = this_objects s"
    if "core s' = core s" for s'
    using that by (simp add: core_def registry_def)
  show ?thesis
  proof (cases c)
    case (SetWidth w)
    then show ?thesis using cor [of "setWidth w s"] by (simp add: setters_core)
  next
    case (SetHeight h)
    then show ?thesis using cor [of "setHeight h s"] by (simp add: setters_core)
  next
    case (SetBackgroundColor b)
    then show ?thesis using cor [of "setBackgroundColor b s"] by (simp add: setters_core)
  next
    case (GetContainer h)
    then show ?thesis using cor [of "snd (getContainer h s)"] by (simp add: getContainer_fields)
  next
    case (SetContainer e)
    then show ?thesis using cor [of "snd (setContainer e s)"] by (simp add: setContainer_core)
  next
    case (SetContainerById h i)
    then show ?thesis using cor [of "snd (setContainer (getElement h i) s)"]
      by (simp add: setContainer_core setContainerById_def)
  next
    case (Init h)
    then show ?thesis using cor [of "snd (init h s)"] by (simp add: init_fields)
  next
    case (AddShaders h f v)
    then show ?thesis using reg [of "snd (addShaders h f v s)"] by (simp add: addShaders_fields)
  next
    case (AddObject object)
    with assms show ?thesis by simp
  next
    case Render
    then show ?thesis using reg [of "snd (render s)"] by (simp add: render_fields)
  next
    case (CallerWrites ho hp hc)
    then show ?thesis by simp
  next
    case (CameraMoves cam)
    then show ?thesis by (cases "this_camera s") simp_all
  qed
qed

lemma returned_ids_other:
  "\<forall>object. c \<noteq> AddObject object \<Longrightarrow> returned_ids (c # cs) s = returned_ids cs (step c s)"
  by (cases c) simp_all

lemma upt_shift: "x # map (\<lambda>n. x + 1 + int n) [0..<k] = map (\<lambda>n. x + int n) [0..<Suc k]"
proof -
  have "map (\<lambda>n. x + int n) [0..<Suc k] = (x + int 0) # map (\<lambda>n. x + int (Suc n)) [0..<k]"
    by (rule map_upt_Suc)
  then show ?thesis by (simp add: add.assoc add.commute)
qed

lemma returned_ids_from:
  "id_inv s \<Longrightarrow> \<exists>k. returned_ids cs s = map (\<lambda>n. this_id s + 1 + int n) [0..<k]"
proof (induction cs arbitrary: s)
  case Nil
  have "returned_ids [] s = map (\<lambda>n. this_id s + 1 + int n) [0..<0]" by simp
  then show ?case by blast
next
  case (Cons c cs)
  show ?case
  proof (cases "\<exists>object. c = AddObject object")
    case False
    then have o: "\<forall>object. c \<noteq> AddObject object" by simp
    from step_ids [OF o, of s] Cons.prems
    have inv: "id_inv (step c s)" and i: "this_id (step c s) = this_id s"
      by (simp_all add: id_inv_def)
    from Cons.IH [OF inv] obtain k where
      "returned_ids cs (step c s) = map (\<lambda>n. this_id (step c s) + 1 + int n) [0..<k]" by blast
    then have "returned_ids (c # cs) s = map (\<lambda>n. this_id s + 1 + int n) [0..<k]"
      by (simp add: returned_ids_other [OF o] i)
    then show ?thesis by blast
  next
    case True
    then obtain object where c: "c = AddObject object" by blast
    obtain r s' where a: "addObject object s = (r, s')" by (cases "addObject object s")
    from addObject_ids [OF a Cons.prems] have inv: "id_inv s'"
      and r: "(\<exists>e. r = Inl e) \<and> this_id s' = this_id s
        \<or> r = Inr (this_id s + 1) \<and> this_id s' = this_id s + 1" by simp_all
    from Cons.IH [OF inv] obtain k where
      ih: "returned_ids cs s' = map (\<lambda>n. this_id s' + 1 + int n) [0..<k]" by blast
    from r show ?thesis
    proof
      assume f: "(\<exists>e. r = Inl e) \<and> this_id s' = this_id s"
      then obtain e where e: "r = Inl e" by blast
      have "returned_ids (c # cs) s = returned_ids cs s'"
        using a c e by simp
      with ih f have "returned_ids (c # cs) s = map (\<lambda>n. this_id s + 1 + int n) [0..<k]"
        by simp
      then show ?thesis by blast
    next
      assume s: "r = Inr (this_id s + 1) \<and> this_id s' = this_id s + 1"
      have "returned_ids (c # cs) s = (this_id s + 1) # returned_ids cs s'"
        using a c s by simp
      also have "returned_ids cs s' = map (\<lambda>n. (this_id s + 1) + 1 + int n) [0..<k]"
        using ih s by simp
      also have "(this_id s + 1) # map (\<lambda>n. (this_id s + 1) + 1 + int n) [0..<k]
          = map (\<lambda>n. this_id s + 1 + int n) [0..<Suc k]"
        by (rule upt_shift)
      finally show ?thesis by blast
    qed
  qed
qed

lemma run_ids:
  "id_inv s \<Longrightarrow>
     id_inv (run cs s) \<and> this_id (run cs s) = this_id s + int (length (returned_ids cs s))"
proof (induction cs arbitrary: s)
  case Nil
  then show ?case by simp
next
  case (Cons c cs)
  show ?case
  proof (cases "\<exists>object. c = AddObject object")
    case False
    then have o: "\<forall>object. c \<noteq> AddObject object" by simp
    from step_ids [OF o, of s] Cons.prems
    have inv: "id_inv (step c s)" and i: "this_id (step c s) = this_id s"
      by (simp_all add: id_inv_def)
    from Cons.IH [OF inv] i show ?thesis
      by (simp add: returned_ids_other [OF o])
  next
    case True
    then obtain object where c: "c = AddObject object" by blast
    obtain r s' where a: "addObject object s = (r, s')" by (cases "addObject object s")
    from addObject_ids [OF a Cons.prems] have inv: "id_inv s'"
      and r: "(\<exists>e. r = Inl e) \<and> this_id s' = this_id s
        \<or> r = Inr (this_id s + 1) \<and> this_id s' = this_id s + 1" by simp_all
    from r Cons.IH [OF inv] a c show ?thesis by auto
  qed
qed

lemma addObject_returns_next:
  assumes "addObject object s = (Inr uniqueId, s')"
  shows "uniqueId = this_id s + 1 \<and> this_id s' = this_id s + 1
     \<and> (\<exists>a. object = JRef a \<and> Map_get (this_objects s') uniqueId = Some a)"
proof -
  from addObject_success_valid [OF assms] have init: "all_set s" by simp
  from addObject_success_valid [OF assms] obtain a ob ps cs where
    a: "object = JRef a" and ob: "heap_get (heap_objects s) a = Some ob"
    and ps: "heap_get (heap_points s) (object_points ob) = Some ps"
    and cs: "object_color ob = None \<longrightarrow> heap_get (heap_colors s) (object_colors ob) = Some cs"
    by auto
  from addObject_exact [OF init ob ps cs] obtain s1 t vb cb where
    s1: "s1 = s \<or> (\<exists>new. s1 = s\<lparr>heap_colors := heap_colors s @ [new]\<rparr>)"
    and r: "addObject (JRef a) s = register a vb cb (s1\<lparr>gl_objects := Suc (Suc (gl_objects s)), trace := t\<rparr>)"
    by blast
  define s3 where "s3 = s1\<lparr>gl_objects := Suc (Suc (gl_objects s)), trace := t\<rparr>"
  from s1 have i: "this_id s3 = this_id s" by (auto simp: s3_def)
  from r assms a have "register a vb cb s3 = (Inr uniqueId, s')" by (simp add: s3_def)
  then have "uniqueId = this_id s3 + 1 \<and> this_id s' = this_id s3 + 1
      \<and> Map_get (this_objects s') uniqueId = Some a"
    by (auto simp: register_def Let_def Map_get_set split: if_splits)
  with i a show ?thesis by auto
qed

lemma addObject_succeeds:
  assumes init: "all_set s" and inv: "id_inv s"
    and ob: "heap_get (heap_objects s) a = Some ob"
    and ps: "heap_get (heap_points s) (object_points ob) = Some ps"
    and cs: "object_color ob = None \<longrightarrow> heap_get (heap_colors s) (object_colors ob) = Some cs"
  shows "fst (addObject (JRef a) s) = Inr (this_id s + 1)"
proof -
  from addObject_exact [OF init ob ps cs] obtain s1 t vb cb where
    s1: "s1 = s \<or> (\<exists>new. s1 = s\<lparr>heap_colors := heap_colors s @ [new]\<rparr>)"
    and r: "addObject (JRef a) s = register a vb cb (s1\<lparr>gl_objects := Suc (Suc (gl_objects s)), trace := t\<rparr>)"
    by blast
  define s3 where "s3 = s1\<lparr>gl_objects := Suc (Suc (gl_objects s)), trace := t\<rparr>"
  from s1 have i: "this_id s3 = this_id s" "this_objects s3 = this_objects s"
    by (auto simp: s3_def)
  have fresh: "\<not> Map_containsKey (this_objects s3) (this_id s3 + 1)"
    using inv i by (auto simp: Map_containsKey_keys id_inv_def)
  from r have "addObject (JRef a) s = register a vb cb s3" by (simp add: s3_def)
  with fresh i show ?thesis by (simp add: register_def Let_def)
qed

lemma heap_get_grow:
  "colors_grow s s' \<Longrightarrow> heap_get (heap_colors s) b = Some cs \<Longrightarrow>
     heap_get (heap_colors s') b = Some cs"
  by (auto simp: colors_grow_def heap_get_def nth_append split: if_splits)

lemma addObject_keeps_scene:
  "all_set (snd (addObject object s)) = all_set s"
  "heap_objects (snd (addObject object s)) = heap_objects s"
  "heap_points (snd (addObject object s)) = heap_points s"
  "heap_get (heap_colors s) b = Some cs \<Longrightarrow>
     heap_get (heap_colors (snd (addObject object s))) b = Some cs"
proof -
  obtain r s' where a: "addObject object s = (r, s')" by (cases "addObject object s")
  from addObject_kept [OF a] have k: "kept s' = kept s" and g: "colors_grow s s'" by simp_all
  from k a show "all_set (snd (addObject object s)) = all_set s"
    "heap_objects (snd (addObject object s)) = heap_objects s"
    "heap_points (snd (addObject object s)) = heap_points s"
    by (simp_all add: kept_def all_set_def)
  from g a show "heap_get (heap_colors s) b = Some cs \<Longrightarrow>
     heap_get (heap_colors (snd (addObject object s))) b = Some cs"
    by (simp add: heap_get_grow)
qed

lemma step_shaderProgram:
  assumes "\<not> is_AddShaders c"
  shows "this_shaderProgram (step c s) = this_shaderProgram s"
proof -
  have cor: "this_shaderProgram s' = this_shaderProgram s" if "core s' = core s" for s'
    using that by (simp add: core_def)
  show ?thesis
  proof (cases c)
    case (SetWidth w)
    then show ?thesis using cor [of "setWidth w s"] by (simp add: setters_core)
  next
    case (SetHeight h)
    then show ?thesis using cor [of "setHeight h s"] by (simp add: setters_core)
  next
    case (SetBackgroundColor b)
    then show ?thesis using cor [of "setBackgroundColor b s"] by (simp add: setters_core)
  next
    case (GetContainer h)
    then show ?thesis using cor [of "snd (getContainer h s)"] by (simp add: getContainer_fields)
  next
    case (SetContainer e)
    then show ?thesis using cor [of "snd (setContainer e s)"] by (simp add: setContainer_core)
  next
    case (SetContainerById h i)
    then show ?thesis using cor [of "snd (setContainer (getElement h i) s)"]
      by (simp add: setContainer_core setContainerById_def)
  next
    case (Init h)
    then show ?thesis using cor [of "snd (init h s)"] by (simp add: init_fields)
  next
    case (AddShaders h f v)
    with assms show ?thesis by simp
  next
    case (AddObject object)
    then show ?thesis by (simp add: addObject_fields)
  next
    case Render
    then show ?thesis by (simp add: render_fields)
  next
    case (CallerWrites ho hp hc)
    then show ?thesis by simp
  next
    case (CameraMoves cam)
    then show ?thesis by (cases "this_camera s") simp_all
  qed
qed

lemma run_shaderProgram:
  "\<forall>c \<in> set cs. \<not> is_AddShaders c \<Longrightarrow> this_shaderProgram (run cs s) = this_shaderProgram s"
  by (induction cs arbitrary: s) (simp_all add: step_shaderProgram)

lemma trace_gl: "trace (gl c s) = trace s @ [GL c]"
  by (simp add: gl_def emit_def)

lemma render_loop_appends: "\<exists>t. trace (snd (render_loop ks s)) = trace s @ t"
proof (induction ks arbitrary: s)
  case Nil
  show ?case by simp
next
  case (Cons k ks)
  have later: "\<exists>t. trace (snd (render_loop ks s1)) = trace s @ t"
    if "trace s1 = trace s @ t1" for s1 t1
    using Cons.IH [of s1] that by auto
  show ?case
    by (auto simp: Let_def trace_gl split: option.splits intro!: later)
qed

lemma render_initialized:
  assumes "this_canvas s = Some canvas" "this_gl s = Some g" "this_camera s = Some cam"
  shows "(\<forall>m. fst (render s) \<noteq> Inl (X_exception m))
     \<and> (\<exists>rest. trace (snd (render s)) = trace s @
           GL Clear_COLOR_DEPTH # GL (GetUniformLocation (this_shaderProgram s) ''perspective'')
             # rest)"
proof -
  let ?s5 = "s\<lparr>trace := trace s @
     [GL Clear_COLOR_DEPTH,
      GL (GetUniformLocation (this_shaderProgram s) ''perspective''),
      GL (UniformMatrix4fv (UniformLocation (this_shaderProgram s) ''perspective'')
            (Float32Array (matrix_flatten (getPerspective cam)))),
      GL (GetUniformLocation (this_shaderProgram s) ''view''),
      GL (UniformMatrix4fv (UniformLocation (this_shaderProgram s) ''view'')
            (Float32Array (matrix_flatten (getView cam))))]\<rparr>"
  obtain e s6 where l: "render_loop (Map_getKeys (this_objects s)) ?s5 = (e, s6)"
    by (cases "render_loop (Map_getKeys (this_objects s)) ?s5")
  have r: "render s = (if e = StopIteration then Inr () else Inl e, s6)"
    using assms l by (cases e) (simp_all add: render_def gl_def emit_def Let_def)
  from render_loop_exn [of "Map_getKeys (this_objects s)" ?s5] l
  have e: "e = StopIteration \<or> e = TypeError" by simp
  from render_loop_appends [of "Map_getKeys (this_objects s)" ?s5] l
  obtain t where "trace s6 = trace ?s5 @ t" by auto
  then have "trace s6 = trace s @ GL Clear_COLOR_DEPTH
      # GL (GetUniformLocation (this_shaderProgram s) ''perspective'')
      # ([GL (UniformMatrix4fv (UniformLocation (this_shaderProgram s) ''perspective'')
            (Float32Array (matrix_flatten (getPerspective cam)))),
      GL (GetUniformLocation (this_shaderProgram s) ''view''),
      GL (UniformMatrix4fv (UniformLocation (this_shaderProgram s) ''view'')
            (Float32Array (matrix_flatten (getView cam))))] @ t)"
    by simp
  then have "\<exists>rest. trace s6 = trace s @ GL Clear_COLOR_DEPTH
      # GL (GetUniformLocation (this_shaderProgram s) ''perspective'') # rest" ..
  with r e show ?thesis by auto
qed

subsection \<open>The example renderer\<close>

lemma example_initialized_eval: "example_initialized =
   (X_renderer 640 480)\<lparr>this_container := Some DocumentBody, this_canvas := Some (Created 0),
      this_gl := Some 0, this_camera := Some example_camera, dom_elements := 1,
      trace := [CreateDom_canvas (Created 0),
                StyleSetProperty (Created 0) ''background-color'' (Str ''#000000''),
                SetCanvasWidth (Created 0) 640, SetCanvasHeight (Created 0) 480,
                AppendChild DocumentBody (Created 0),
                GetContext_experimental_webgl (Created 0),
                GL (Viewport 0 0 640 480), GL (ClearColor 0 0 0 0), GL Enable_DEPTH_TEST,
                GL DepthFunc_LEQUAL, GL Clear_COLOR_DEPTH, New_camera]\<rparr>"
  by (simp add: example_initialized_def init_def X_renderer_def example_host_def emit_def gl_def
      getContainer_def getBackgroundColor_def getWidth_def getHeight_def init_configure_def Let_def)

lemma example_initialized_live:
  "this_canvas example_initialized = Some (Created 0)" "this_gl example_initialized = Some 0"
  "this_camera example_initialized = Some example_camera" "this_objects example_initialized = []"
  "this_shaderProgram example_initialized = None"
  by (simp_all add: example_initialized_eval X_renderer_def)

lemma example_init_ok: "init example_host (X_renderer 640 480) = (Inr (), example_initialized)"
proof -
  have "fst (init example_host (X_renderer 640 480)) = Inr ()"
    by (simp add: init_def X_renderer_def example_host_def emit_def gl_def
      getContainer_def getBackgroundColor_def getWidth_def getHeight_def init_configure_def Let_def)
  then show ?thesis by (simp add: example_initialized_def prod_eq_iff)
qed

lemma example_init_no_webgl:
  "init example_host_no_webgl (X_renderer 640 480)
     = (Inl (X_exception ''Fatal: WebGL not supported!''), example_no_webgl)"
proof -
  have "fst (init example_host_no_webgl (X_renderer 640 480))
      = Inl (X_exception ''Fatal: WebGL not supported!'')"
    by (simp add: init_def X_renderer_def example_host_no_webgl_def example_host_def emit_def
      getContainer_def Let_def)
  then show ?thesis by (simp add: example_no_webgl_def prod_eq_iff)
qed

lemma example_init_enable_throws:
  "init example_host_enable_throws (X_renderer 640 480)
     = (Inl (X_exception (''Fatal: Exception while accessing GL Context!''
                            @ CHR 0x0A # ''context lost'')), example_enable_throws)"
proof -
  have "fst (init example_host_enable_throws (X_renderer 640 480))
      = Inl (X_exception (''Fatal: Exception while accessing GL Context!''
                            @ CHR 0x0A # ''context lost''))"
    by (simp add: init_def X_renderer_def example_host_enable_throws_def example_host_def
        emit_def gl_def getContainer_def getBackgroundColor_def getWidth_def getHeight_def
        init_configure_def Let_def)
  then show ?thesis by (simp add: example_enable_throws_def prod_eq_iff)
qed

lemma example_scene_fields:
  "all_set example_scene"
  "heap_get (heap_objects example_scene) 0 = Some example_object_mismatch"
  "heap_get (heap_objects example_scene) 1 = Some example_object_colored"
  "heap_get (heap_objects example_scene) 2 = Some example_object_per_point"
  "heap_get (heap_points example_scene) 0 = Some example_points"
  "heap_get (heap_colors example_scene) 0 = Some example_three_colors"
  "heap_get (heap_colors example_scene) 1 = Some example_five_colors"
  "gl_objects example_scene = 0" "this_id example_scene = -1" "this_objects example_scene = []"
  "trace example_scene = trace example_initialized"
  by (simp_all add: example_scene_def all_set_def heap_get_def example_initialized_live
      example_initialized_eval X_renderer_def)

lemma example_objects_fields:
  "object_color example_object_mismatch = None" "object_points example_object_mismatch = 0"
  "object_colors example_object_mismatch = 0"
  "object_color example_object_colored = Some (Color 1 0 0 1)"
  "object_points example_object_colored = 0"
  "object_color example_object_per_point = None" "object_points example_object_per_point = 0"
  "object_colors example_object_per_point = 1"
  by (simp_all add: example_object_mismatch_def example_object_colored_def
      example_object_per_point_def)

lemma example_addObject: "addObject (JRef 0) example_scene = (Inr 0, example_added)"
proof -
  have p: "heap_get (heap_points example_scene) (object_points example_object_mismatch)
       = Some example_points"
    and c: "object_color example_object_mismatch = None \<longrightarrow>
      heap_get (heap_colors example_scene) (object_colors example_object_mismatch)
       = Some example_three_colors"
    by (simp_all add: example_objects_fields example_scene_fields)
  from addObject_exact [OF example_scene_fields(1) example_scene_fields(2) p c]
  obtain s1 t where s1: "s1 = example_scene
      \<or> (\<exists>new. s1 = example_scene\<lparr>heap_colors := heap_colors example_scene @ [new]\<rparr>)"
    and r: "addObject (JRef 0) example_scene
      = register 0 (X_buffer (gl_objects example_scene) (length example_points) 3)
          (X_buffer (Suc (gl_objects example_scene)) (length example_points) 4)
          (s1\<lparr>gl_objects := Suc (Suc (gl_objects example_scene)), trace := t\<rparr>)"
    by blast
  define s3 where "s3 = s1\<lparr>gl_objects := Suc (Suc (gl_objects example_scene)), trace := t\<rparr>"
  have s3: "this_id s3 = this_id s1" "this_objects s3 = this_objects s1"
    by (simp_all add: s3_def)
  note r = r [folded s3_def]
  from s1 s3 have "this_id s3 = -1" "this_objects s3 = []"
    by (auto simp: example_scene_fields)
  with r have "fst (addObject (JRef 0) example_scene) = Inr 0"
    by (simp add: register_def Map_containsKey_def)
  then show ?thesis by (simp add: example_added_def prod_eq_iff)
qed

lemma example_added_fields:
  "all_set example_added"
  "heap_get (heap_objects example_added) 1 = Some example_object_colored"
  "heap_get (heap_objects example_added) 2 = Some example_object_per_point"
  "heap_get (heap_points example_added) 0 = Some example_points"
  "heap_get (heap_colors example_added) 1 = Some example_five_colors"
  unfolding example_added_def
  by (simp_all del: One_nat_def add: addObject_keeps_scene example_scene_fields)

lemma example_added2_fields:
  "all_set example_added2"
  "heap_get (heap_objects example_added2) 2 = Some example_object_per_point"
  "heap_get (heap_points example_added2) 0 = Some example_points"
  "heap_get (heap_colors example_added2) 1 = Some example_five_colors"
  unfolding example_added2_def
  by (simp_all del: One_nat_def add: addObject_keeps_scene example_added_fields)

lemma example_history_runs:
  "run [Init example_host,
        CallerWrites [example_object_mismatch, example_object_colored, example_object_per_point]
          [example_points] [example_three_colors, example_five_colors]] (X_renderer 640 480)
     = example_scene"
  "run [Init example_host,
        CallerWrites [example_object_mismatch, example_object_colored, example_object_per_point]
          [example_points] [example_three_colors, example_five_colors],
        AddObject (JRef 0)] (X_renderer 640 480)
     = example_added"
  "run [Init example_host,
        CallerWrites [example_object_mismatch, example_object_colored, example_object_per_point]
          [example_points] [example_three_colors, example_five_colors],
        AddObject (JRef 0), AddObject (JRef 1)] (X_renderer 640 480)
     = example_added2"
  by (simp_all add: example_added2_def example_added_def example_scene_def
      example_initialized_def)

lemma example_history_ids:
  "returned_ids example_history (X_renderer 640 480)
     = returned_ids [AddObject (JRef 0), AddObject (JRef 1), AddObject (JRef 2)] example_scene"
  by (simp add: example_history_def example_scene_def example_initialized_def)

subsection \<open>Matrices\<close>

lemma identity4: "createIdentityMatrix 4 = [[1, 0, 0, 0], [0, 1, 0, 0], [0, 0, 1, 0], [0, 0, 0, 1]]"
  by (simp add: createIdentityMatrix_def upt_rec)

lemma upt4: "[0..<4] = [0, 1, 2, 3]" "[0..<Suc 0] = [0]" "[0..<1] = [0]"
  by (simp_all add: upt_rec)

lemma example_mirrored_fields:
  "this_camera example_mirrored = Some example_mirror_camera"
  "this_width example_mirrored = 640" "this_height example_mirrored = 480"
  by (simp_all add: example_mirrored_def example_initialized_eval X_renderer_def)

lemma identity_times_view: "multiply (createIdentityMatrix 4) (getView example_mirror_camera) = Inr (getView example_mirror_camera)"
  by (simp add: identity4 example_mirror_camera_def multiply_def matrix_width_def matrix_height_def upt4 nth_Cons')

lemma identity_times_perspective: "multiply (createIdentityMatrix 4) (getPerspective example_mirror_camera) = Inr (createIdentityMatrix 4)"
  by (simp add: identity4 example_mirror_camera_def multiply_def matrix_width_def matrix_height_def upt4 nth_Cons')

lemma view_times_perspective: "multiply (getView example_mirror_camera) (getPerspective example_mirror_camera) = Inr (getView example_mirror_camera)"
  by (simp add: identity4 example_mirror_camera_def multiply_def matrix_width_def matrix_height_def upt4 nth_Cons')

lemma identity_on_vector: "transform_vector (createIdentityMatrix 4) (Vec3 1 0 0) = Inr [[1, 0, 0, 1]]"
  by (simp add: identity4 transform_vector_def multiply_def matrix_width_def matrix_height_def upt4 nth_Cons' transpose.simps)

lemma view_on_vector: "transform_vector (getView example_mirror_camera) (Vec3 1 0 0) = Inr [[-1, 0, 0, 1]]"
  by (simp add: example_mirror_camera_def transform_vector_def multiply_def matrix_width_def matrix_height_def upt4 nth_Cons' transpose.simps)

lemma convertWorldToDisplayCoordinates_applies_identity:
  assumes "this_camera s = Some cam"
    and "matrix_height (getView cam) = 4" and "matrix_height (getPerspective cam) = 4"
  shows "convertWorldToDisplayCoordinates multiplyByVector s vector =
     (case multiplyByVector (createIdentityMatrix 4) vector of
        Inl e \<Rightarrow> Inl e
      | Inr twoDVectorAsMatrix \<Rightarrow>
          Inr (Vec2
            (Math_round ((toNumber (getValueAt twoDVectorAsMatrix 0 0) + 1) / 2 * this_width s))
            (Math_round ((1 - toNumber (getValueAt twoDVectorAsMatrix 0 1)) / 2 * this_height s))))"
proof -
  have w: "matrix_width (createIdentityMatrix 4) = 4"
    by (simp add: identity4 matrix_width_def)
  show ?thesis
    using assms
    by (simp add: convertWorldToDisplayCoordinates_def multiply_def w getWidth_def getHeight_def
        Let_def split: sum.splits)
qed

section \<open>The claims\<close>

text \<open>
  C4. \<^verbatim>\<open>init\<close> is idempotent: on a renderer whose surface exists, a further call returns
  at once without an error and leaves the whole state as it was: the same surface,
  context and camera, no new element, no call on the context.
\<close>

theorem init_idempotent: "this_canvas s \<noteq> None \<Longrightarrow> init h s = (Inr (), s)"
  by (auto simp: init_def)

theorem init_idempotent_witness:
  "this_canvas example_initialized \<noteq> None
   \<and> init example_host example_initialized = (Inr (), example_initialized)"
proof -
  have c: "this_canvas example_initialized \<noteq> None" by (simp add: example_initialized_live)
  from c init_idempotent [OF c, of example_host] show ?thesis by simp
qed

text \<open>
  C9. On a renderer where the surface, the context or the camera is null, \<^verbatim>\<open>addObject\<close>
  and \<^verbatim>\<open>render\<close> throw the not-initialized exception and leave the state as it was:
  the registry gets no entry and no buffer is created.
\<close>

theorem not_initialized:
  "this_canvas s = None \<or> this_gl s = None \<or> this_camera s = None \<Longrightarrow>
     addObject object s = (Inl (X_exception ''Fatal: Renderer was not initialized properly!''), s)
     \<and> render s = (Inl (X_exception ''Fatal: The renderer was not initialized properly!''), s)"
  by (auto simp: addObject_def render_def split: option.splits)

theorem not_initialized_witness:
  "this_canvas (X_renderer 640 480) = None
   \<and> addObject (JRef 0) (X_renderer 640 480)
       = (Inl (X_exception ''Fatal: Renderer was not initialized properly!''), X_renderer 640 480)
   \<and> render (X_renderer 640 480)
       = (Inl (X_exception ''Fatal: The renderer was not initialized properly!''), X_renderer 640 480)
   \<and> this_objects (X_renderer 640 480) = []"
proof -
  have c: "this_canvas (X_renderer 640 480) = None" by (simp add: X_renderer_def)
  then have "this_canvas (X_renderer 640 480) = None \<or> this_gl (X_renderer 640 480) = None
      \<or> this_camera (X_renderer 640 480) = None" by simp
  from not_initialized [OF this, of "JRef 0"] c show ?thesis by (simp add: X_renderer_def)
qed

text \<open>
  C7. On an initialized renderer with an empty registry, \<^verbatim>\<open>render\<close> clears the color and
  depth buffers once, uploads the perspective and the view matrix once each, issues no
  draw call, and returns normally: the end of the iteration is not an error.
\<close>

theorem render_empty:
  assumes "this_canvas s = Some canvas" "this_gl s = Some g" "this_camera s = Some cam"
    and "this_objects s = []"
  shows "render s = (Inr (), s\<lparr>trace := trace s @
     [GL Clear_COLOR_DEPTH,
      GL (GetUniformLocation (this_shaderProgram s) ''perspective''),
      GL (UniformMatrix4fv (UniformLocation (this_shaderProgram s) ''perspective'')
            (Float32Array (matrix_flatten (getPerspective cam)))),
      GL (GetUniformLocation (this_shaderProgram s) ''view''),
      GL (UniformMatrix4fv (UniformLocation (this_shaderProgram s) ''view'')
            (Float32Array (matrix_flatten (getView cam))))]\<rparr>)"
  using assms by (simp add: render_def gl_def emit_def Map_getKeys_def Let_def)

theorem render_empty_witness:
  "this_canvas example_initialized = Some (Created 0) \<and> this_gl example_initialized = Some 0
   \<and> this_camera example_initialized = Some example_camera
   \<and> this_objects example_initialized = []
   \<and> render example_initialized = (Inr (), example_initialized\<lparr>trace := trace example_initialized @
     [GL Clear_COLOR_DEPTH,
      GL (GetUniformLocation None ''perspective''),
      GL (UniformMatrix4fv (UniformLocation None ''perspective'')
            (Float32Array (matrix_flatten (createIdentityMatrix 4)))),
      GL (GetUniformLocation None ''view''),
      GL (UniformMatrix4fv (UniformLocation None ''view'')
            (Float32Array (matrix_flatten (createIdentityMatrix 4))))]\<rparr>)"
  using render_empty [OF example_initialized_live(1,2,3,4)]
  by (simp add: example_initialized_live example_camera_def)

text \<open>
  C3. The surface, the context and the camera of a renderer are all null or all set, in
  every state that a history of calls reaches from the constructor: they start all
  null, and a failing \<^verbatim>\<open>init\<close> leaves the three fields as they were. \<^verbatim>\<open>init\<close> assigns
  them only after every step has succeeded: when it returns normally on a renderer
  without a surface, a container was found, the canvas gave a context, none of the
  commands of step 3 threw and the camera was made, and the new state is the old one
  with the container, the events of a complete \<^verbatim>\<open>init\<close> and these three fields.
\<close>

theorem surface_context_camera_atomic:
  "all_null (X_renderer width height)
   \<and> (all_null (run cs (X_renderer width height)) \<or> all_set (run cs (X_renderer width height)))
   \<and> (init h s = (Inl e, s') \<longrightarrow>
        this_canvas s' = this_canvas s \<and> this_gl s' = this_gl s \<and> this_camera s' = this_camera s)
   \<and> (init h s = (Inr u, s') \<longrightarrow> all_null s \<longrightarrow> all_set s')
   \<and> (init h s = (Inr u, s') \<longrightarrow> this_canvas s = None \<longrightarrow>
        (\<exists>container g cam.
           (this_container s = Some container
              \<or> this_container s = None \<and> document_body h = Some container)
           \<and> getContext h = Returns (Some g)
           \<and> (\<forall>c \<in> set (init_configure s). gl_throws h c = None)
           \<and> new_camera h = Returns cam
           \<and> s' = s\<lparr>dom_elements := Suc (dom_elements s), this_container := Some container,
                    trace := trace s @ init_events container s,
                    this_canvas := Some (Created (dom_elements s)), this_gl := Some g,
                    this_camera := Some cam\<rparr>))"
proof -
  have n: "all_null (X_renderer width height)"
    by (simp add: all_null_def X_renderer_def)
  have f: "this_canvas s' = this_canvas s \<and> this_gl s' = this_gl s \<and> this_camera s' = this_camera s"
    if "init h s = (Inl e, s')"
    using init_fails_live [OF that] by (simp add: live_def)
  have g: "all_set s'" if i: "init h s = (Inr u, s')" and a: "all_null s"
  proof -
    from a have "this_canvas s = None" by (simp add: all_null_def)
    from init_succeeds_live [OF i this] show ?thesis by (simp add: atomic_live)
  qed
  note k = init_succeeds_steps [of h s u s']
  from n run_atomic [of "X_renderer width height" cs] f g k show ?thesis by blast
qed

theorem surface_context_camera_atomic_witness:
  "all_null (X_renderer 640 480)
   \<and> all_set (run [Init example_host] (X_renderer 640 480))
   \<and> init example_host_no_webgl (X_renderer 640 480)
       = (Inl (X_exception ''Fatal: WebGL not supported!''), example_no_webgl)
   \<and> this_canvas example_no_webgl = None \<and> this_gl example_no_webgl = None
   \<and> this_camera example_no_webgl = None
   \<and> init example_host (X_renderer 640 480) = (Inr (), example_initialized)
   \<and> all_set example_initialized
   \<and> init example_host_enable_throws (X_renderer 640 480)
       = (Inl (X_exception (''Fatal: Exception while accessing GL Context!''
                              @ CHR 0x0A # ''context lost'')), example_enable_throws)
   \<and> this_canvas example_enable_throws = None \<and> this_gl example_enable_throws = None
   \<and> this_camera example_enable_throws = None
   \<and> getContext example_host = Returns (Some 0)
   \<and> gl_throws example_host Enable_DEPTH_TEST = None
   \<and> new_camera example_host = Returns example_camera
   \<and> this_canvas example_initialized = Some (Created 0)
   \<and> this_gl example_initialized = Some 0
   \<and> this_camera example_initialized = Some example_camera
   \<and> trace example_initialized = init_events DocumentBody (X_renderer 640 480)"
proof -
  note t1 = surface_context_camera_atomic [where width = 640 and height = 480
      and cs = "[Init example_host]" and h = example_host_no_webgl and s = "X_renderer 640 480"
      and e = "X_exception ''Fatal: WebGL not supported!''" and s' = example_no_webgl]
  note t2 = surface_context_camera_atomic [where width = 640 and height = 480
      and cs = "[]" and h = example_host and s = "X_renderer 640 480"
      and u = "()" and s' = example_initialized]
  note t3 = surface_context_camera_atomic [where width = 640 and height = 480
      and cs = "[]" and h = example_host_enable_throws and s = "X_renderer 640 480"
      and e = "X_exception (''Fatal: Exception while accessing GL Context!''
                              @ CHR 0x0A # ''context lost'')" and s' = example_enable_throws]
  from t1 have a: "all_null (X_renderer 640 480)" by blast
  from t1 example_init_no_webgl
  have c: "this_canvas example_no_webgl = this_canvas (X_renderer 640 480)
      \<and> this_gl example_no_webgl = this_gl (X_renderer 640 480)
      \<and> this_camera example_no_webgl = this_camera (X_renderer 640 480)" by blast
  from t3 example_init_enable_throws
  have c3: "this_canvas example_enable_throws = this_canvas (X_renderer 640 480)
      \<and> this_gl example_enable_throws = this_gl (X_renderer 640 480)
      \<and> this_camera example_enable_throws = this_camera (X_renderer 640 480)" by blast
  from t2 example_init_ok a have d: "all_set example_initialized" by blast
  have r: "run [Init example_host] (X_renderer 640 480) = example_initialized"
    by (simp add: example_initialized_def)
  from a have n: "this_canvas (X_renderer 640 480) = None \<and> this_gl (X_renderer 640 480) = None
      \<and> this_camera (X_renderer 640 480) = None" by (simp add: all_null_def)
  from n have n1: "this_canvas (X_renderer 640 480) = None" by simp
  from t2 example_init_ok n1 obtain container g cam where
    k: "this_container (X_renderer 640 480) = Some container
          \<or> this_container (X_renderer 640 480) = None
            \<and> document_body example_host = Some container"
      "getContext example_host = Returns (Some g)"
      "\<forall>c \<in> set (init_configure (X_renderer 640 480)). gl_throws example_host c = None"
      "new_camera example_host = Returns cam"
      "example_initialized = (X_renderer 640 480)
          \<lparr>dom_elements := Suc (dom_elements (X_renderer 640 480)),
           this_container := Some container,
           trace := trace (X_renderer 640 480) @ init_events container (X_renderer 640 480),
           this_canvas := Some (Created (dom_elements (X_renderer 640 480))),
           this_gl := Some g, this_camera := Some cam\<rparr>"
    by blast
  from k(1) have container: "container = DocumentBody"
    by (simp add: X_renderer_def example_host_def)
  from k(2) have g: "g = 0" by (simp add: example_host_def)
  from k(4) have cam: "cam = example_camera" by (simp add: example_host_def)
  from k(3) have en: "gl_throws example_host Enable_DEPTH_TEST = None"
    by (simp add: init_configure_def)
  have x: "trace (X_renderer 640 480) = []" "dom_elements (X_renderer 640 480) = 0"
    by (simp_all add: X_renderer_def)
  from k(5) have e: "example_initialized = (X_renderer 640 480)
          \<lparr>dom_elements := Suc 0, this_container := Some DocumentBody,
           trace := init_events DocumentBody (X_renderer 640 480),
           this_canvas := Some (Created 0), this_gl := Some 0,
           this_camera := Some example_camera\<rparr>"
    by (simp add: container g cam x)
  have f1: "this_canvas example_initialized = Some (Created 0)" by (subst e) simp
  have f2: "this_gl example_initialized = Some 0" by (subst e) simp
  have f3: "this_camera example_initialized = Some example_camera" by (subst e) simp
  have f4: "trace example_initialized = init_events DocumentBody (X_renderer 640 480)"
    by (subst e) simp
  note fields = f1 f2 f3 f4
  from k(2) k(4) g cam have hostfacts: "getContext example_host = Returns (Some 0)"
    "new_camera example_host = Returns example_camera" by simp_all
  from a c c3 d r n example_init_no_webgl example_init_ok example_init_enable_throws
    en fields hostfacts
  show ?thesis by simp
qed

text \<open>
  C5. The counter starts at -1, and the identifiers that the successful \<^verbatim>\<open>addObject\<close>
  calls of any history return are 0, 1, 2, ... in this order: the n-th successful call
  returns n - 1, and after n successful calls the counter is n - 1. Every successful
  call returns the counter plus one, leaves the counter at that value and stores the
  object under it. On an initialized renderer that a history has reached, a call on a
  well-formed object does succeed: the incremented counter is never a key in use.
\<close>

theorem ids_consecutive:
  "this_id (X_renderer width height) = -1
   \<and> returned_ids cs (X_renderer width height)
       = map int [0..<length (returned_ids cs (X_renderer width height))]
   \<and> this_id (run cs (X_renderer width height))
       = int (length (returned_ids cs (X_renderer width height))) - 1
   \<and> (addObject object s = (Inr uniqueId, s') \<longrightarrow>
        uniqueId = this_id s + 1 \<and> this_id s' = this_id s + 1
        \<and> (\<exists>a. object = JRef a \<and> Map_get (this_objects s') uniqueId = Some a))
   \<and> (all_set (run cs (X_renderer width height)) \<longrightarrow>
        heap_get (heap_objects (run cs (X_renderer width height))) a = Some ob \<longrightarrow>
        heap_get (heap_points (run cs (X_renderer width height))) (object_points ob) = Some ps \<longrightarrow>
        (object_color ob = None \<longrightarrow>
           heap_get (heap_colors (run cs (X_renderer width height))) (object_colors ob)
             = Some pcs) \<longrightarrow>
        fst (addObject (JRef a) (run cs (X_renderer width height)))
          = Inr (this_id (run cs (X_renderer width height)) + 1))"
proof -
  have inv: "id_inv (X_renderer width height)" and i: "this_id (X_renderer width height) = -1"
    by (simp_all add: id_inv_def X_renderer_def Map_getKeys_def)
  from returned_ids_from [OF inv, of cs] obtain k where
    k: "returned_ids cs (X_renderer width height)
        = map (\<lambda>n. this_id (X_renderer width height) + 1 + int n) [0..<k]" by blast
  then have "length (returned_ids cs (X_renderer width height)) = k"
    by (simp only: length_map length_upt diff_zero)
  with k i have b: "returned_ids cs (X_renderer width height)
       = map int [0..<length (returned_ids cs (X_renderer width height))]" by simp
  from run_ids [OF inv, of cs] i
  have rinv: "id_inv (run cs (X_renderer width height))"
    and c: "this_id (run cs (X_renderer width height))
       = int (length (returned_ids cs (X_renderer width height))) - 1" by simp_all
  note d = addObject_returns_next [of object s uniqueId s']
  note e = addObject_succeeds [of "run cs (X_renderer width height)" a ob ps pcs, OF _ rinv]
  from i b c d e show ?thesis by blast
qed

theorem ids_consecutive_witness:
  "returned_ids example_history (X_renderer 640 480) = [0, 1, 2]
   \<and> this_id (run example_history (X_renderer 640 480)) = 2
   \<and> addObject (JRef 0) example_scene = (Inr 0, example_added)
   \<and> this_id example_scene = -1 \<and> this_id example_added = 0
   \<and> Map_get (this_objects example_added) 0 = Some 0
   \<and> fst (addObject (JRef 1) example_added) = Inr 1
   \<and> fst (addObject (JRef 2) example_added2) = Inr 2"
proof -
  let ?X = "X_renderer 640 480"
  note d0 = ids_consecutive [where object = "JRef 0" and s = example_scene and uniqueId = 0
      and s' = example_added, THEN conjunct2, THEN conjunct2, THEN conjunct2, THEN conjunct1]
  from d0 example_addObject
  have d: "this_id example_added = this_id example_scene + 1
      \<and> Map_get (this_objects example_added) 0 = Some 0"
    by auto
  have i0: "this_id example_scene = -1" by (simp add: example_scene_fields)
  with d have i1: "this_id example_added = 0" by simp
  have c1: "object_color example_object_colored = None \<longrightarrow>
      heap_get (heap_colors example_added) (object_colors example_object_colored) = Some []"
    by (simp add: example_objects_fields)
  note e1 = ids_consecutive [where width = 640 and height = 480
      and cs = "[Init example_host,
        CallerWrites [example_object_mismatch, example_object_colored, example_object_per_point]
          [example_points] [example_three_colors, example_five_colors],
        AddObject (JRef 0)]" and a = 1 and ob = example_object_colored
      and ps = example_points and pcs = "[]",
      THEN conjunct2, THEN conjunct2, THEN conjunct2, THEN conjunct2,
      unfolded example_history_runs]
  have f1: "fst (addObject (JRef 1) example_added) = Inr (this_id example_added + 1)"
    using e1 example_added_fields c1
    by (simp del: One_nat_def add: example_objects_fields)
  then have a1: "addObject (JRef 1) example_added = (Inr 1, example_added2)"
    by (simp add: i1 example_added2_def prod_eq_iff)
  note d1 = ids_consecutive [where object = "JRef 1" and s = example_added and uniqueId = 1
      and s' = example_added2, THEN conjunct2, THEN conjunct2, THEN conjunct2, THEN conjunct1]
  from d1 a1 i1 have i2: "this_id example_added2 = 1" by simp
  note e2 = ids_consecutive [where width = 640 and height = 480
      and cs = "[Init example_host,
        CallerWrites [example_object_mismatch, example_object_colored, example_object_per_point]
          [example_points] [example_three_colors, example_five_colors],
        AddObject (JRef 0), AddObject (JRef 1)]" and a = 2
      and ob = example_object_per_point and ps = example_points
      and pcs = example_five_colors,
      THEN conjunct2, THEN conjunct2, THEN conjunct2, THEN conjunct2,
      unfolded example_history_runs]
  have f2: "fst (addObject (JRef 2) example_added2) = Inr (this_id example_added2 + 1)"
    using e2 example_added2_fields
    by (simp del: One_nat_def add: example_objects_fields)
  have f0: "fst (addObject (JRef 0) example_scene) = Inr 0"
    by (simp add: example_addObject)
  have st: "snd (addObject (JRef 0) example_scene) = example_added"
    "snd (addObject (JRef 1) example_added) = example_added2"
    by (simp_all add: example_added_def example_added2_def)
  have three: "returned_ids [AddObject (JRef 0), AddObject (JRef 1), AddObject (JRef 2)]
      example_scene = [0, this_id example_added + 1, this_id example_added2 + 1]"
    by (simp del: One_nat_def add: f0 f1 f2 st)
  then have len: "length (returned_ids example_history ?X) = 3"
    by (simp add: example_history_ids)
  note b = ids_consecutive [where width = 640 and height = 480 and cs = example_history,
      THEN conjunct2, THEN conjunct1]
  note c = ids_consecutive [where width = 640 and height = 480 and cs = example_history,
      THEN conjunct2, THEN conjunct2, THEN conjunct1]
  from b have ids: "returned_ids example_history ?X = [0, 1, 2]"
    unfolding len by (simp add: upt_rec)
  from c have last: "this_id (run example_history ?X) = 2"
    unfolding len by simp
  from f1 i1 have g1: "fst (addObject (JRef 1) example_added) = Inr 1" by simp
  from f2 i2 have g2: "fst (addObject (JRef 2) example_added2) = Inr 2" by simp
  from ids last example_addObject i0 i1 d g1 g2 show ?thesis by simp
qed

text \<open>
  C1. On an initialized renderer, \<^verbatim>\<open>addObject\<close> on a scene object uploads, after the
  points, the colors that the three-way policy gives: the object's own color once per
  point if it has one, else its per-point colors as they are if their number is the
  number of points, else opaque white once per point.
\<close>

theorem addObject_uploads_policy_colors:
  assumes "all_set s"
    and "heap_get (heap_objects s) a = Some ob"
    and "heap_get (heap_points s) (object_points ob) = Some ps"
    and "object_color ob = None \<longrightarrow> heap_get (heap_colors s) (object_colors ob) = Some cs"
  shows "trace (snd (addObject (JRef a) s)) = trace s @
           [GL CreateBuffer, GL (BindBuffer_ARRAY_BUFFER (gl_objects s)),
            GL (BufferData_ARRAY_BUFFER_STATIC_DRAW (Float32Array (points_flatten ps))),
            GL CreateBuffer, GL (BindBuffer_ARRAY_BUFFER (Suc (gl_objects s))),
            GL (BufferData_ARRAY_BUFFER_STATIC_DRAW (Float32Array (colors_flatten
                  (policy_colors (object_color ob) (length ps) cs))))]"
proof -
  from addObject_exact [OF assms] obtain s1 where
    e: "addObject (JRef a) s =
         register a (X_buffer (gl_objects s) (length ps) 3)
           (X_buffer (Suc (gl_objects s)) (length ps) 4)
           (s1\<lparr>gl_objects := Suc (Suc (gl_objects s)),
               trace := trace s @
                 [GL CreateBuffer, GL (BindBuffer_ARRAY_BUFFER (gl_objects s)),
                  GL (BufferData_ARRAY_BUFFER_STATIC_DRAW (Float32Array (points_flatten ps))),
                  GL CreateBuffer, GL (BindBuffer_ARRAY_BUFFER (Suc (gl_objects s))),
                  GL (BufferData_ARRAY_BUFFER_STATIC_DRAW (Float32Array (colors_flatten
                        (policy_colors (object_color ob) (length ps) cs))))]\<rparr>)"
    by blast
  obtain r s' where a: "addObject (JRef a) s = (r, s')" by (cases "addObject (JRef a) s")
  from register_kept [OF a [unfolded e]] a show ?thesis by simp
qed

theorem addObject_uploads_policy_colors_witness:
  "all_set example_scene
   \<and> heap_get (heap_objects example_scene) 0 = Some example_object_mismatch
   \<and> heap_get (heap_points example_scene) (object_points example_object_mismatch)
       = Some example_points
   \<and> heap_get (heap_colors example_scene) (object_colors example_object_mismatch)
       = Some example_three_colors
   \<and> trace (snd (addObject (JRef 0) example_scene)) = trace example_scene @
       [GL CreateBuffer, GL (BindBuffer_ARRAY_BUFFER 0),
        GL (BufferData_ARRAY_BUFFER_STATIC_DRAW
              (Float32Array [0, 0, 0, 1, 0, 0, 0, 1, 0, 1, 1, 0, 0, 0, 1])),
        GL CreateBuffer, GL (BindBuffer_ARRAY_BUFFER 1),
        GL (BufferData_ARRAY_BUFFER_STATIC_DRAW
              (Float32Array [1, 1, 1, 1, 1, 1, 1, 1, 1, 1, 1, 1, 1, 1, 1, 1, 1, 1, 1, 1]))]
   \<and> trace (snd (addObject (JRef 1) example_scene)) = trace example_scene @
       [GL CreateBuffer, GL (BindBuffer_ARRAY_BUFFER 0),
        GL (BufferData_ARRAY_BUFFER_STATIC_DRAW
              (Float32Array [0, 0, 0, 1, 0, 0, 0, 1, 0, 1, 1, 0, 0, 0, 1])),
        GL CreateBuffer, GL (BindBuffer_ARRAY_BUFFER 1),
        GL (BufferData_ARRAY_BUFFER_STATIC_DRAW
              (Float32Array [1, 0, 0, 1, 1, 0, 0, 1, 1, 0, 0, 1, 1, 0, 0, 1, 1, 0, 0, 1]))]
   \<and> trace (snd (addObject (JRef 2) example_scene)) = trace example_scene @
       [GL CreateBuffer, GL (BindBuffer_ARRAY_BUFFER 0),
        GL (BufferData_ARRAY_BUFFER_STATIC_DRAW
              (Float32Array [0, 0, 0, 1, 0, 0, 0, 1, 0, 1, 1, 0, 0, 0, 1])),
        GL CreateBuffer, GL (BindBuffer_ARRAY_BUFFER 1),
        GL (BufferData_ARRAY_BUFFER_STATIC_DRAW
              (Float32Array [1, 0, 0, 1, 0, 1, 0, 1, 0, 0, 1, 1, 1, 1, 0, 1, 0, 1, 1, 1 / 2]))]"
proof -
  have p: "heap_get (heap_points example_scene) (object_points example_object_mismatch)
       = Some example_points"
    "heap_get (heap_points example_scene) (object_points example_object_colored)
       = Some example_points"
    "heap_get (heap_points example_scene) (object_points example_object_per_point)
       = Some example_points"
    by (simp_all add: example_objects_fields example_scene_fields)
  have c: "heap_get (heap_colors example_scene) (object_colors example_object_mismatch)
       = Some example_three_colors"
    "heap_get (heap_colors example_scene) (object_colors example_object_per_point)
       = Some example_five_colors"
    by (simp_all add: example_objects_fields example_scene_def heap_get_def)
  have c1: "object_color example_object_colored = None \<longrightarrow>
      heap_get (heap_colors example_scene) (object_colors example_object_colored) = Some []"
    by (simp add: example_objects_fields)
  note t0 = addObject_uploads_policy_colors [OF example_scene_fields(1) example_scene_fields(2)
      p(1) impI [OF c(1)]]
  note t1 = addObject_uploads_policy_colors [OF example_scene_fields(1) example_scene_fields(3)
      p(2) c1]
  note t2 = addObject_uploads_policy_colors [OF example_scene_fields(1) example_scene_fields(4)
      p(3) impI [OF c(2)]]
  from t0 t1 t2 p c show ?thesis
    by (simp add: example_scene_fields example_objects_fields policy_colors_def
        example_points_def example_three_colors_def example_five_colors_def)
qed

text \<open>
  C8. After a successful \<^verbatim>\<open>addObject\<close>, the registry holds under the returned
  identifier the object, a vertex buffer whose item count is the object's point count,
  with 3 components per item, and a color buffer with the same item count, with 4
  components per item.
\<close>

theorem registry_entry_counts:
  assumes "addObject object s = (Inr uniqueId, s')"
  shows "\<exists>a ob ps vertexBuffer colorBuffer.
      object = JRef a \<and> heap_get (heap_objects s) a = Some ob
      \<and> heap_get (heap_points s) (object_points ob) = Some ps
      \<and> Map_get (this_objects s') uniqueId = Some a
      \<and> Map_get (this_vertexBuffers s') uniqueId = Some vertexBuffer
      \<and> Map_get (this_colorBuffers s') uniqueId = Some colorBuffer
      \<and> itemCount vertexBuffer = length ps \<and> itemCount colorBuffer = length ps
      \<and> itemSize vertexBuffer = 3 \<and> itemSize colorBuffer = 4"
proof -
  from addObject_success_valid [OF assms] have init: "all_set s" by simp
  from addObject_success_valid [OF assms] obtain a ob ps cs where
    a: "object = JRef a" and ob: "heap_get (heap_objects s) a = Some ob"
    and ps: "heap_get (heap_points s) (object_points ob) = Some ps"
    and cs: "object_color ob = None \<longrightarrow> heap_get (heap_colors s) (object_colors ob) = Some cs"
    by auto
  from addObject_exact [OF init ob ps cs] obtain s3 where
    "addObject (JRef a) s = register a (X_buffer (gl_objects s) (length ps) 3)
           (X_buffer (Suc (gl_objects s)) (length ps) 4) s3"
    by blast
  with assms a have
    "register a (X_buffer (gl_objects s) (length ps) 3)
        (X_buffer (Suc (gl_objects s)) (length ps) 4) s3 = (Inr uniqueId, s')" by simp
  then have "Map_get (this_objects s') uniqueId = Some a
      \<and> Map_get (this_vertexBuffers s') uniqueId = Some (X_buffer (gl_objects s) (length ps) 3)
      \<and> Map_get (this_colorBuffers s') uniqueId = Some (X_buffer (Suc (gl_objects s)) (length ps) 4)"
    by (auto simp: register_def Let_def Map_get_set split: if_splits)
  with a ob ps show ?thesis by (simp add: X_buffer_def)
qed

theorem registry_entry_counts_witness:
  "addObject (JRef 0) example_scene = (Inr 0, example_added)
   \<and> (\<exists>vertexBuffer colorBuffer.
        Map_get (this_objects example_added) 0 = Some 0
        \<and> Map_get (this_vertexBuffers example_added) 0 = Some vertexBuffer
        \<and> Map_get (this_colorBuffers example_added) 0 = Some colorBuffer
        \<and> itemCount vertexBuffer = 5 \<and> itemCount colorBuffer = 5
        \<and> itemSize vertexBuffer = 3 \<and> itemSize colorBuffer = 4)"
proof -
  from registry_entry_counts [OF example_addObject]
  obtain a ob ps vertexBuffer colorBuffer where
    a: "JRef 0 = JRef a" and ob: "heap_get (heap_objects example_scene) a = Some ob"
    and ps: "heap_get (heap_points example_scene) (object_points ob) = Some ps"
    and m: "Map_get (this_objects example_added) 0 = Some a"
      "Map_get (this_vertexBuffers example_added) 0 = Some vertexBuffer"
      "Map_get (this_colorBuffers example_added) 0 = Some colorBuffer"
      "itemCount vertexBuffer = length ps" "itemCount colorBuffer = length ps"
      "itemSize vertexBuffer = 3" "itemSize colorBuffer = 4"
    by blast
  from a have a0: "a = 0" by simp
  with ob have "ob = example_object_mismatch" by (simp add: example_scene_fields)
  with ps have "ps = example_points" by (simp add: example_scene_fields example_objects_fields)
  then have "length ps = 5" by (simp add: example_points_def)
  with m a0 example_addObject show ?thesis by auto
qed

text \<open>
  C6. \<^verbatim>\<open>addObject\<close> never writes to the caller's object: whatever the call does, the scene
  objects (with their object-level colors) and the point containers are as before, and
  every color container that existed before is as before; a synthesized color list is
  one new container, at an address that was not in use.
\<close>

theorem addObject_does_not_mutate:
  "heap_objects (snd (addObject object s)) = heap_objects s
   \<and> heap_points (snd (addObject object s)) = heap_points s
   \<and> (heap_colors (snd (addObject object s)) = heap_colors s
      \<or> (\<exists>new. heap_colors (snd (addObject object s)) = heap_colors s @ [new]))"
proof -
  obtain r s' where a: "addObject object s = (r, s')" by (cases "addObject object s")
  from addObject_kept [OF a] have "kept s' = kept s" and "colors_grow s s'" by simp_all
  with a show ?thesis by (simp add: kept_def colors_grow_def)
qed

text \<open>
  C10. The precondition of \<^verbatim>\<open>render\<close> does not look at the shader program: on a
  renderer that a history without \<^verbatim>\<open>addShaders\<close> has initialized, the program is
  absent, \<^verbatim>\<open>render\<close> throws no \<^verbatim>\<open>X.exception\<close>, and after the clear it asks the
  context for a uniform location of the absent program.
\<close>

theorem render_without_shaders:
  assumes "\<forall>c \<in> set cs. \<not> is_AddShaders c"
    and "all_set (run cs (X_renderer width height))"
  shows "this_shaderProgram (run cs (X_renderer width height)) = None
     \<and> (\<forall>m. fst (render (run cs (X_renderer width height))) \<noteq> Inl (X_exception m))
     \<and> (\<exists>rest. trace (snd (render (run cs (X_renderer width height))))
           = trace (run cs (X_renderer width height)) @
             GL Clear_COLOR_DEPTH # GL (GetUniformLocation None ''perspective'') # rest)"
proof -
  let ?s = "run cs (X_renderer width height)"
  have n: "this_shaderProgram ?s = None"
    using run_shaderProgram [OF assms(1), of "X_renderer width height"]
    by (simp add: X_renderer_def)
  from assms(2) obtain canvas g cam where
    "this_canvas ?s = Some canvas" "this_gl ?s = Some g" "this_camera ?s = Some cam"
    by (auto simp: all_set_def)
  from render_initialized [OF this] n show ?thesis by simp
qed

theorem render_without_shaders_witness:
  "all_set (run [Init example_host] (X_renderer 640 480))
   \<and> this_shaderProgram example_initialized = None
   \<and> (\<forall>m. fst (render example_initialized) \<noteq> Inl (X_exception m))
   \<and> (\<exists>rest. trace (snd (render example_initialized))
           = trace example_initialized @
             GL Clear_COLOR_DEPTH # GL (GetUniformLocation None ''perspective'') # rest)"
proof -
  have r: "run [Init example_host] (X_renderer 640 480) = example_initialized"
    by (simp add: example_initialized_def)
  have h: "\<forall>c \<in> set [Init example_host]. \<not> is_AddShaders c" by simp
  have a: "all_set (run [Init example_host] (X_renderer 640 480))"
    unfolding r by (simp add: all_set_def example_initialized_live)
  from render_without_shaders [OF h a] a show ?thesis by (simp only: r) simp
qed

text \<open>
  C2. \<^verbatim>\<open>convertWorldToDisplayCoordinates\<close> is to compose the identity with the view and
  the perspective matrix, apply the result to the vector and map x and y to pixels. The
  method calls \<^verbatim>\<open>multiply\<close> twice and drops what the calls return, so the matrix it
  applies is still the identity. On the 640 by 480 example renderer, with a view that
  mirrors the x axis, the vector (1, 0, 0) is sent to the pixel (640, 240); composing
  the matrices sends it to (0, 240).
\<close>

theorem convertWorldToDisplayCoordinates_ignores_camera:
  "convertWorldToDisplayCoordinates transform_vector example_mirrored (Vec3 1 0 0)
     = Inr (Vec2 640 240)
   \<and> claimed_convertWorldToDisplayCoordinates transform_vector example_mirrored (Vec3 1 0 0)
     = Inr (Vec2 0 240)"
  by (simp add: convertWorldToDisplayCoordinates_def claimed_convertWorldToDisplayCoordinates_def
      example_mirrored_fields identity_times_view identity_times_perspective
      view_times_perspective identity_on_vector view_on_vector getValueAt_def matrix_height_def matrix_width_def
      toNumber_def Math_round_def getWidth_def getHeight_def)

end
